theory Spec2Isabelle
  imports Complex_Main "HOL-Library.Word" "HOL-Library.AList" "HOL-Library.Log_Nat"
    "HOL-Library.Signed_Division"
begin

section \<open>Basic types of the Go program\<close>

text \<open>
  Byte strings and Go strings are \<open>string\<close> (lists of bytes). A Go \<open>error\<close> is either
  a plain message (\<open>errors.New\<close>, or an error of a package outside these sources) or
  the format and the arguments of a \<open>fmt.Errorf\<close> call, kept as they are passed; a
  nil error is \<open>None\<close>. A \<open>time.Time\<close> is an instant counted in nanoseconds, a
  \<open>time.Duration\<close> is an \<open>int64\<close> of nanoseconds, read with \<open>sint\<close>. A panic is a value
  of its own, returned on the left of a sum.
\<close>

datatype error = Error string | Errorf string "fmt_arg list"
  and fmt_arg = AStr string | AErr error | AInt int | AFloat real | ADuration "64 word"

datatype panic = Panic string

type_synonym u64 = "64 word"
type_synonym i32 = "32 word"
type_synonym Time = int
type_synonym Duration = "64 word"

definition Second :: Duration where
  "Second = 1000000000"

definition Minute :: Duration where
  "Minute = 60 * Second"

text \<open>\<open>t.Sub(u)\<close>: the difference, saturated at the ends of \<open>int64\<close>.\<close>

definition time_Sub :: "Time \<Rightarrow> Time \<Rightarrow> Duration" where
  "time_Sub t u =
     (let d = t - u in
      if d > 2 ^ 63 - 1 then word_of_int (2 ^ 63 - 1)
      else if d < - (2 ^ 63) then word_of_int (- (2 ^ 63))
      else word_of_int d)"

text \<open>\<open>time.Since(t)\<close>, with the clock read given.\<close>

definition time_Since :: "Time \<Rightarrow> Time \<Rightarrow> Duration" where
  "time_Since now t = time_Sub now t"

section \<open>ConvertibleBool (src/unnamed/part_000)\<close>

type_synonym ConvertibleBool = bool

text \<open>
  The body of \<open>func (bit ConvertibleBool) UnmarshalJSON(data []byte) error\<close>: it runs on
  the parameter \<open>bit\<close> (here \<open>bit_arg\<close>) and yields the final value of that local variable and the
  returned error.
\<close>

definition UnmarshalJSON_body :: "ConvertibleBool \<Rightarrow> string \<Rightarrow> ConvertibleBool \<times> error option" where
  "UnmarshalJSON_body bit_arg data =
     (let asString = data in
      if asString = ''1'' \<or> asString = ''true'' then (True, None)
      else if asString = ''0'' \<or> asString = ''false'' then (False, None)
      else (bit_arg, Some (Error (''Boolean unmarshal error: invalid input '' @ asString))))"

text \<open>
  A call \<open>v.UnmarshalJSON(data)\<close> on a variable \<open>v\<close>. The receiver is declared by
  value, so the method runs on a copy of \<open>v\<close>: the caller's variable keeps its value
  and only the error comes back.
\<close>

definition UnmarshalJSON :: "ConvertibleBool \<Rightarrow> string \<Rightarrow> ConvertibleBool \<times> error option" where
  "UnmarshalJSON v data =
     (let (bit_final, err) = UnmarshalJSON_body v data in (v, err))"

section \<open>Container statistics (package info, as far as the sources read it)\<close>

record ContainerReference =
  Name :: string
  Aliases :: "string list"
  Namespace :: string

record CpuUsage =
  Total :: u64
  System :: u64
  User :: u64
  Throttled :: u64

record CpuStats =
  Usage :: CpuUsage
  LoadAverage :: i32

record MemoryStats =
  Memory_Usage :: u64
  Memory_RSS :: u64

text \<open>A \<open>map[string]uint64\<close> is a list of pairs; a key that is missing reads as zero.\<close>

record PerDiskStats =
  Stats :: "(string \<times> u64) list"

definition stat_of :: "(string \<times> u64) list \<Rightarrow> string \<Rightarrow> u64" where
  "stat_of m k = (case map_of m k of None \<Rightarrow> 0 | Some v \<Rightarrow> v)"

record DiskIoStats =
  IoServiceBytes :: "PerDiskStats list"
  IoServiced :: "PerDiskStats list"

record NetworkStats =
  RxBytes :: u64
  RxErrors :: u64
  TxBytes :: u64
  TxErrors :: u64

record FsStats =
  Device :: string
  Fs_Usage :: u64
  Limit :: u64

record LoadStats =
  NrRunning :: u64
  NrUninterruptible :: u64
  NrIoWait :: u64

type_synonym MetricVal = "string"

record ContainerStats =
  Timestamp :: Time
  Cpu :: CpuStats
  DiskIo :: DiskIoStats
  Memory :: MemoryStats
  Network :: NetworkStats
  Filesystem :: "FsStats list"
  TaskStats :: LoadStats
  CustomMetrics :: "(string \<times> MetricVal list) list option"

section \<open>The InfluxDB sink (src/unnamed/part_001)\<close>

text \<open>
  A value passed as \<open>interface{}\<close>, with its dynamic type. A \<open>write.Point\<close> of the
  client library: measurement, tags, fields and time; \<open>AddTag\<close> replaces the value of a
  tag that is there and appends a new one otherwise.
\<close>

datatype iface =
    VUint64 "64 word" | VUint32 "32 word" | VUint16 "16 word" | VUint8 "8 word" | VUint "64 word"
  | VInt64 "64 word" | VInt32 "32 word" | VInt16 "16 word" | VInt8 "8 word" | VInt "64 word"

record Point =
  measurement :: string
  ptags :: "(string \<times> string) list"
  pfields :: "(string \<times> iface) list"
  ptime :: "Time option"

definition NewPointWithMeasurement :: "string \<Rightarrow> Point" where
  "NewPointWithMeasurement name = \<lparr>measurement = name, ptags = [], pfields = [], ptime = None\<rparr>"

definition NewPoint :: "string \<Rightarrow> (string \<times> string) list \<Rightarrow> (string \<times> iface) list \<Rightarrow> Time \<Rightarrow> Point" where
  "NewPoint name tgs flds ts = \<lparr>measurement = name, ptags = tgs, pfields = flds, ptime = Some ts\<rparr>"

definition AddField :: "string \<Rightarrow> iface \<Rightarrow> Point \<Rightarrow> Point" where
  "AddField k v p = p\<lparr>pfields := AList.update k v (pfields p)\<rparr>"

definition AddTag :: "string \<Rightarrow> string \<Rightarrow> Point \<Rightarrow> Point" where
  "AddTag k v p = p\<lparr>ptags := AList.update k v (ptags p)\<rparr>"

definition SetTime :: "Time \<Rightarrow> Point \<Rightarrow> Point" where
  "SetTime t p = p\<lparr>ptime := Some t\<rparr>"

record Client =
  serverURL :: string
  authToken :: string

text \<open>
  The field \<open>readyToFlush\<close> holds either the method value \<open>defaultReadyToFlush\<close> or a
  function installed by \<open>OverrideReadyToFlush\<close>, whose answer is given for the instant of
  the call.
\<close>

datatype flush_predicate = defaultReadyToFlush_value | overridden "Time \<Rightarrow> bool"

record influxdbStorage =
  client :: "Client option"
  machineName :: string
  bucket :: string
  org :: string
  retentionPolicy :: string
  bufferDuration :: Duration
  lastWrite :: Time
  points :: "Point list"
  readyToFlush :: flush_predicate

definition serCpuUsageTotal :: string where "serCpuUsageTotal = ''cpu_usage_total''"
definition serCpuUsageSystem :: string where "serCpuUsageSystem = ''cpu_usage_system''"
definition serCpuUsageUser :: string where "serCpuUsageUser = ''cpu_usage_user''"
definition serCpuThrottled :: string where "serCpuThrottled = ''cpu_throttled''"
definition serLoadAverage :: string where "serLoadAverage = ''load_average''"
definition serMemoryUsage :: string where "serMemoryUsage = ''memory_usage''"
definition serMemoryRSS :: string where "serMemoryRSS = ''memory_rss''"
definition serRxBytes :: string where "serRxBytes = ''rx_bytes''"
definition serRxErrors :: string where "serRxErrors = ''rx_errors''"
definition serTxBytes :: string where "serTxBytes = ''tx_bytes''"
definition serTxErrors :: string where "serTxErrors = ''tx_errors''"
definition serFsLimit :: string where "serFsLimit = ''fs_limit''"
definition serFsUsage :: string where "serFsUsage = ''fs_usage''"
definition serIoBytes :: string where "serIoBytes = ''io_bytes''"
definition serIoOps :: string where "serIoOps = ''io_ops''"
definition fieldValue :: string where "fieldValue = ''value''"
definition tagContainerId :: string where "tagContainerId = ''container_id''"
definition tagDevice :: string where "tagDevice = ''device''"

fun toSignedIfUnsigned :: "iface \<Rightarrow> iface" where
  "toSignedIfUnsigned (VUint64 v) = VInt64 v"
| "toSignedIfUnsigned (VUint32 v) = VInt32 v"
| "toSignedIfUnsigned (VUint16 v) = VInt16 v"
| "toSignedIfUnsigned (VUint8 v) = VInt8 v"
| "toSignedIfUnsigned (VUint v) = VInt v"
| "toSignedIfUnsigned v = v"

definition makePoint :: "string \<Rightarrow> iface \<Rightarrow> Point" where
  "makePoint name v = AddField fieldValue (toSignedIfUnsigned v) (NewPointWithMeasurement name)"

definition addTagsToPoint :: "Point \<Rightarrow> (string \<times> string) list \<Rightarrow> Point" where
  "addTagsToPoint point tgs = fold (\<lambda>(k, v) p. AddTag k v p) tgs point"

definition tagPoints :: "ContainerReference \<Rightarrow> ContainerStats \<Rightarrow> Point list \<Rightarrow> Point list" where
  "tagPoints ref stats pts =
     (let commonTags = [(tagContainerId, Name ref)] in
      map (\<lambda>p. SetTime (Timestamp stats) (addTagsToPoint p commonTags)) pts)"

definition containerFilesystemStatsToPoints :: "ContainerReference \<Rightarrow> ContainerStats \<Rightarrow> Point list" where
  "containerFilesystemStatsToPoints ref stats =
     (if length (Filesystem stats) = 0 then []
      else tagPoints ref stats
        (concat (map (\<lambda>fsStat.
           [NewPoint serFsUsage [(tagDevice, Device fsStat)] [(fieldValue, VInt64 (Fs_Usage fsStat))] (Timestamp stats),
            NewPoint serFsLimit [(tagDevice, Device fsStat)] [(fieldValue, VInt64 (Limit fsStat))] (Timestamp stats)])
         (Filesystem stats))))"

definition sumStats :: "string \<Rightarrow> PerDiskStats list \<Rightarrow> u64" where
  "sumStats key ds = fold (\<lambda>diskStats acc. acc + stat_of (Stats diskStats) key) ds 0"

definition containerStatsToPoints :: "ContainerReference \<Rightarrow> ContainerStats \<Rightarrow> Point list" where
  "containerStatsToPoints ref stats =
     (let readBytes = sumStats ''Read'' (IoServiceBytes (DiskIo stats));
          writeBytes = sumStats ''Write'' (IoServiceBytes (DiskIo stats));
          readOps = sumStats ''Read'' (IoServiced (DiskIo stats));
          writeOps = sumStats ''Write'' (IoServiced (DiskIo stats))
      in tagPoints ref stats
        [makePoint serCpuUsageTotal (VUint64 (Total (Usage (Cpu stats)))),
         makePoint serCpuUsageSystem (VUint64 (System (Usage (Cpu stats)))),
         makePoint serCpuUsageUser (VUint64 (User (Usage (Cpu stats)))),
         makePoint serCpuThrottled (VUint64 (Throttled (Usage (Cpu stats)))),
         makePoint serLoadAverage (VInt32 (LoadAverage (Cpu stats))),
         makePoint serMemoryUsage (VUint64 (Memory_Usage (Memory stats))),
         makePoint serMemoryRSS (VUint64 (Memory_RSS (Memory stats))),
         makePoint serIoBytes (VUint64 (readBytes + writeBytes)),
         makePoint serIoOps (VUint64 (readOps + writeOps)),
         makePoint serRxBytes (VUint64 (RxBytes (Network stats))),
         makePoint serRxErrors (VUint64 (RxErrors (Network stats))),
         makePoint serTxBytes (VUint64 (TxBytes (Network stats))),
         makePoint serTxErrors (VUint64 (TxErrors (Network stats)))])"

definition defaultReadyToFlush :: "Time \<Rightarrow> influxdbStorage \<Rightarrow> bool" where
  "defaultReadyToFlush now self = (sint (bufferDuration self) \<le> sint (time_Since now (lastWrite self)))"

definition call_readyToFlush :: "Time \<Rightarrow> influxdbStorage \<Rightarrow> bool" where
  "call_readyToFlush now self =
     (case readyToFlush self of
        defaultReadyToFlush_value \<Rightarrow> defaultReadyToFlush now self
      | overridden f \<Rightarrow> f now)"

text \<open>
  What one call of \<open>AddStats\<close> reads from outside: the clock when \<open>readyToFlush\<close> runs,
  the clock at \<open>lastWrite = time.Now()\<close>, and the result of the client's \<open>WritePoint\<close>.
\<close>

record sink_io =
  clock_ready :: Time
  clock_write :: Time
  WritePoint_result :: "error option"

text \<open>
  \<open>AddStats\<close> returns the error, the storage after the call and the batch handed to
  \<open>WritePoint\<close> (empty when nothing was written). A flush on a storage whose client is
  nil (after \<open>Close\<close>) dereferences a nil pointer.
\<close>

definition AddStats :: "sink_io \<Rightarrow> ContainerReference \<Rightarrow> ContainerStats option \<Rightarrow> influxdbStorage
    \<Rightarrow> panic + (error option \<times> influxdbStorage \<times> Point list)" where
  "AddStats io ref stats_ptr self =
     (case stats_ptr of
        None \<Rightarrow> Inr (None, self, [])
      | Some stats \<Rightarrow>
          (let self1 = self\<lparr>points := points self @ containerStatsToPoints ref stats\<rparr>;
               self2 = self1\<lparr>points := points self1 @ containerFilesystemStatsToPoints ref stats\<rparr>;
               (pointsToFlush, self3) =
                 (if call_readyToFlush (clock_ready io) self2
                  then (points self2, self2\<lparr>points := [], lastWrite := clock_write io\<rparr>)
                  else ([], self2))
           in if length pointsToFlush > 0 then
                (case client self3 of
                   None \<Rightarrow> Inl (Panic ''invalid memory address or nil pointer dereference'')
                 | Some cl \<Rightarrow>
                     (case WritePoint_result io of
                        Some err \<Rightarrow>
                          Inr (Some (Errorf ''failed to write stats to influxDb - %s'' [AErr err]),
                               self3, pointsToFlush)
                      | None \<Rightarrow> Inr (None, self3, pointsToFlush)))
              else Inr (None, self3, [])))"

definition Close :: "influxdbStorage \<Rightarrow> error option \<times> influxdbStorage" where
  "Close self = (None, self\<lparr>client := None\<rparr>)"

section \<open>The container tracker (src/manager/container.go)\<close>

subsection \<open>State and surroundings\<close>

type_synonym MetricSpec = string

record ContainerSpec =
  HasCustomMetrics :: bool
  Spec_CustomMetrics :: "MetricSpec list"

text \<open>\<open>containerInfo\<close> embeds the container's reference (field \<open>Ref\<close>).\<close>

record containerInfo =
  Ref :: ContainerReference
  Subcontainers :: "ContainerReference list"
  Spec :: ContainerSpec

text \<open>
  The fields of \<open>containerData\<close> that hold the tracker's own state. The handler, the
  memory cache and the collector manager are objects outside the tracker: every operation
  below takes what they answer at that call. \<open>loadReader\<close> and \<open>summaryReader\<close> say whether
  the field is non-nil. Locks and channels are left out.
\<close>

record containerData =
  info :: containerInfo
  loadReader :: bool
  summaryReader :: bool
  housekeepingInterval :: Duration
  maxHousekeepingInterval :: Duration
  allowDynamicHousekeeping :: bool
  lastUpdatedTime :: Time
  lastErrorTime :: Time
  loadAvg :: real
  loadAvgLastProbeTime :: Time
  loadreaderInterval :: Duration
  taskStats :: LoadStats
  logUsage :: bool

text \<open>The command-line flags the tracker reads.\<close>

record flags =
  HousekeepingInterval :: Duration
  enableLoadReader :: bool
  LoadreaderInterval :: Duration
  MaxLoadReaderInterval :: Duration
  PanicTimeout :: Duration

text \<open>
  What the handler answers during one operation. \<open>Exists\<close> is asked at several places;
  each place has its own answer, since the container can disappear in between.
\<close>

record handler =
  h_ContainerReference :: "error + ContainerReference"
  h_GetSpec :: "error + ContainerSpec"
  h_GetStats :: "ContainerStats option \<times> error option"
  h_ListContainers :: "error + ContainerReference list"
  h_GetCgroupPath :: "error + string"
  h_Exists_GetSpec :: bool
  h_Exists_GetStats :: bool
  h_Exists_Collect :: bool
  h_Exists_ContainerReference :: bool
  h_Exists_ListContainers :: bool

text \<open>
  The collector manager behind the interface value: nil, a \<open>*GenericCollectorManager\<close>
  with the number of its collectors and its next collection time, or a value of another
  type. With it, what its methods answer during one operation.
\<close>

datatype collector_manager =
    nil_manager
  | GenericCollectorManager (Collectors: nat) (NextCollectionTime: Time)
  | other_manager

record collector =
  manager :: collector_manager
  cm_GetSpec :: "error + MetricSpec list"
  cm_Collect :: "Time \<times> (string \<times> MetricVal list) list option \<times> error option"

text \<open>
  The memory cache is a state of any type \<open>'c\<close> with the two methods the tracker calls:
  \<open>AddStats(ref, stats)\<close> and \<open>RecentStats(name, empty, empty, n)\<close>.
\<close>

record 'c cache_ops =
  cache_AddStats :: "ContainerReference \<Rightarrow> ContainerStats \<Rightarrow> 'c \<Rightarrow> error option \<times> 'c"
  cache_RecentStats :: "string \<Rightarrow> nat \<Rightarrow> 'c \<Rightarrow> error + ContainerStats list"

text \<open>
  Modelled from the spec: \<open>StatsEq\<close> of package info is not among the sources. The spec
  says: two stats are equal iff every scalar field except timestamp matches.
\<close>

definition StatsEq :: "ContainerStats \<Rightarrow> ContainerStats \<Rightarrow> bool" where
  "StatsEq a b \<longleftrightarrow>
     Cpu a = Cpu b \<and> DiskIo a = DiskIo b \<and> Memory a = Memory b \<and> Network a = Network b \<and>
     Filesystem a = Filesystem b \<and> TaskStats a = TaskStats b \<and> CustomMetrics a = CustomMetrics b"

text \<open>A line of the log: \<open>glog.Infof\<close>, \<open>glog.Warningf\<close>, or \<open>glog.V(n).Infof\<close>.\<close>

datatype log_line =
    Info string "fmt_arg list"
  | Warning string "fmt_arg list"
  | Verbose nat string "fmt_arg list"

subsection \<open>Intervals\<close>

definition DurationMin :: "Duration \<Rightarrow> Duration \<Rightarrow> Duration" where
  "DurationMin d1 d2 = (if sint d1 < sint d2 then d1 else d2)"

text \<open>\<open>allowErrorLogging\<close> reads the clock twice: in \<open>time.Since\<close> and in \<open>time.Now\<close>.\<close>

definition allowErrorLogging :: "Time \<Rightarrow> Time \<Rightarrow> containerData \<Rightarrow> bool \<times> containerData" where
  "allowErrorLogging now_since now_set c =
     (if sint (time_Since now_since (lastErrorTime c)) > sint Minute
      then (True, c\<lparr>lastErrorTime := now_set\<rparr>)
      else (False, c))"

definition adjustHousekeepingInterval ::
    "flags \<Rightarrow> 'c cache_ops \<Rightarrow> 'c \<Rightarrow> containerData \<Rightarrow> error option \<times> containerData" where
  "adjustHousekeepingInterval fl ops memoryCache c =
     (if \<not> allowDynamicHousekeeping c then (None, c)
      else
        (case cache_RecentStats ops (Name (Ref (info c))) 2 memoryCache of
           Inl err \<Rightarrow> (Some err, c)
         | Inr stats \<Rightarrow>
             if length stats < 2 then (None, c)
             else if StatsEq (stats ! 0) (stats ! 1)
               then (None, c\<lparr>housekeepingInterval :=
                        DurationMin (housekeepingInterval c * 2) (maxHousekeepingInterval c)\<rparr>)
               else (None, c\<lparr>housekeepingInterval := HousekeepingInterval fl\<rparr>)))"

text \<open>
  Consecutive iterations of the housekeeping loop, as far as the interval goes: the
  loop calls \<open>adjustHousekeepingInterval\<close> once per iteration, each time on the cache as
  it is then. An error of the call is logged by the loop and changes nothing else.
\<close>

fun adjustments :: "flags \<Rightarrow> 'c cache_ops \<Rightarrow> 'c list \<Rightarrow> containerData \<Rightarrow> containerData" where
  "adjustments fl ops [] c = c"
| "adjustments fl ops (memoryCache # later) c =
     adjustments fl ops later (snd (adjustHousekeepingInterval fl ops memoryCache c))"

text \<open>
  What the loop finds in the cache at one iteration: \<open>RecentStats\<close> answers with at
  least two samples (it is asked for two) and the first two are equal, or differ, by
  \<open>StatsEq\<close>.
\<close>

definition equal_samples :: "'c cache_ops \<Rightarrow> string \<Rightarrow> 'c \<Rightarrow> bool" where
  "equal_samples ops name memoryCache =
     (case cache_RecentStats ops name 2 memoryCache of
        Inl err \<Rightarrow> False
      | Inr stats \<Rightarrow> 2 \<le> length stats \<and> StatsEq (stats ! 0) (stats ! 1))"

definition differing_samples :: "'c cache_ops \<Rightarrow> string \<Rightarrow> 'c \<Rightarrow> bool" where
  "differing_samples ops name memoryCache =
     (case cache_RecentStats ops name 2 memoryCache of
        Inl err \<Rightarrow> False
      | Inr stats \<Rightarrow> 2 \<le> length stats \<and> \<not> StatsEq (stats ! 0) (stats ! 1))"

subsection \<open>Load average\<close>

text \<open>
  A \<open>float64\<close> is modelled by the real number it holds. A \<open>float64\<close> operation rounds its
  result and \<open>math.Exp\<close> is a function of Go's library: addition, subtraction,
  multiplication, division and \<open>math.Exp\<close> are the parameter \<open>fa\<close>, and the theorems say what
  they assume of it. Each operation of an expression is rounded on its own (no fused
  multiply-add). Negation is exact. Infinities and NaN have no value in the model.
\<close>

record float64_arith =
  f64_add :: "real \<Rightarrow> real \<Rightarrow> real"
  f64_sub :: "real \<Rightarrow> real \<Rightarrow> real"
  f64_mul :: "real \<Rightarrow> real \<Rightarrow> real"
  f64_div :: "real \<Rightarrow> real \<Rightarrow> real"
  math_Exp :: "real \<Rightarrow> real"

text \<open>
  What rounding to nearest keeps of the signs: sums, products and quotients of
  non-negative numbers are non-negative, a difference \<open>a - b\<close> with \<open>b \<le> a\<close> is
  non-negative, and \<open>math.Exp\<close> of a non-positive number lies between 0 and 1.
\<close>

definition keeps_sign :: "float64_arith \<Rightarrow> bool" where
  "keeps_sign fa \<longleftrightarrow>
     (\<forall>a b. 0 \<le> a \<and> 0 \<le> b \<longrightarrow> 0 \<le> f64_add fa a b)
   \<and> (\<forall>a b. b \<le> a \<longrightarrow> 0 \<le> f64_sub fa a b)
   \<and> (\<forall>a b. 0 \<le> a \<and> 0 \<le> b \<longrightarrow> 0 \<le> f64_mul fa a b)
   \<and> (\<forall>a b. 0 \<le> a \<and> 0 < b \<longrightarrow> 0 \<le> f64_div fa a b)
   \<and> (\<forall>x. x \<le> 0 \<longrightarrow> 0 \<le> math_Exp fa x \<and> math_Exp fa x \<le> 1)"

text \<open>
  \<open>float64(n)\<close> for an \<open>uint64\<close>: exact below \<open>2^53\<close>, rounded to 53 significant bits
  (to nearest, ties to even) from there on; \<open>float64(n)\<close> for an \<open>int64\<close> rounds the
  magnitude in the same way.
\<close>

definition float64_of_uint64 :: "u64 \<Rightarrow> real" where
  "float64_of_uint64 w =
     (let n = unat w in
      if n < 2 ^ 53 then real n
      else
        (let e = floorlog 2 n - 53;
             q = n div 2 ^ e;
             r = n mod 2 ^ e;
             half = 2 ^ (e - 1);
             q' = (if half < r \<or> (r = half \<and> odd q) then q + 1 else q)
         in real (q' * 2 ^ e)))"

definition float64_of_int64 :: "64 word \<Rightarrow> real" where
  "float64_of_int64 w = (if 0 \<le> sint w then float64_of_uint64 w else - float64_of_uint64 (- w))"

text \<open>
  \<open>int32(x)\<close> for a \<open>float64\<close>: the fraction is dropped (rounding towards zero). Go
  leaves the result open when the value does not fit; amd64 gives the least \<open>int32\<close>.
\<close>

definition trunc_toward_zero :: "real \<Rightarrow> int" where
  "trunc_toward_zero x = (if 0 \<le> x then \<lfloor>x\<rfloor> else \<lceil>x\<rceil>)"

definition int32_of_float64 :: "real \<Rightarrow> i32" where
  "int32_of_float64 x =
     (if - (2 ^ 31) \<le> trunc_toward_zero x \<and> trunc_toward_zero x < 2 ^ 31 then word_of_int (trunc_toward_zero x)
      else word_of_int (- (2 ^ 31)))"

text \<open>
  \<open>d.Seconds()\<close>, as package time computes it: \<open>sec := d / Second; nsec := d % Second;
  return float64(sec) + float64(nsec)/1e9\<close>, with Go's division and remainder (towards
  zero). Both conversions are exact: \<open>sec\<close> and \<open>nsec\<close> are below \<open>2^53\<close> in magnitude.
\<close>

definition Seconds :: "float64_arith \<Rightarrow> Duration \<Rightarrow> real" where
  "Seconds fa d =
     (let sec = sint d sdiv sint Second;
          nsec = sint d smod sint Second
      in f64_add fa (real_of_int sec) (f64_div fa (real_of_int nsec) 1000000000))"

definition updateLoadAvg :: "float64_arith \<Rightarrow> Time \<Rightarrow> LoadStats \<Rightarrow> containerData \<Rightarrow> containerData" where
  "updateLoadAvg fa probeTime newTaskStats c =
     (let newLoad = NrRunning newTaskStats + NrUninterruptible newTaskStats + NrIoWait newTaskStats;
          c1 = (if loadAvg c < 0 then c\<lparr>loadAvg := float64_of_uint64 newLoad\<rparr>
                else
                  (let loadDecay =
                         math_Exp fa (- (f64_div fa (Seconds fa (time_Sub probeTime (loadAvgLastProbeTime c))) 10))
                   in c\<lparr>loadAvg := f64_add fa (f64_mul fa (float64_of_uint64 newLoad) (f64_sub fa 1.0 loadDecay))
                                              (f64_mul fa (loadAvg c) loadDecay)\<rparr>))
      in c1\<lparr>loadAvgLastProbeTime := probeTime\<rparr>)"

definition LoadAvg :: "containerData \<Rightarrow> real" where
  "LoadAvg c = loadAvg c"

definition updateTaskStats :: "LoadStats \<Rightarrow> containerData \<Rightarrow> containerData" where
  "updateTaskStats ts c = c\<lparr>taskStats := ts\<rparr>"

text \<open>The method \<open>TaskStats()\<close>; the plain name is the field of a sample.\<close>

definition get_TaskStats :: "containerData \<Rightarrow> LoadStats" where
  "get_TaskStats c = taskStats c"

text \<open>
  One iteration of the load reader loop. \<open>GetCpuLoad_result\<close> is what the load reader
  answers, \<open>probeTime\<close> the clock read right after. The loop runs only with a load
  reader; a call without one dereferences nil.
\<close>

definition doLoadReaderIteration ::
    "float64_arith \<Rightarrow> flags \<Rightarrow> handler \<Rightarrow> error + LoadStats \<Rightarrow> Time \<Rightarrow> containerData
      \<Rightarrow> panic + (error option \<times> containerData)" where
  "doLoadReaderIteration fa fl h GetCpuLoad_result probeTime c =
     (case h_GetCgroupPath h of
        Inl err \<Rightarrow> Inr (None, c)
      | Inr path \<Rightarrow>
          if \<not> loadReader c then Inl (Panic ''invalid memory address or nil pointer dereference'')
          else
            (case GetCpuLoad_result of
               Inl err \<Rightarrow>
                 Inr (Some (Errorf ''failed to get load stat for %q - path %q, error %s''
                              [AStr (Name (Ref (info c))), AStr path, AErr err]), c)
             | Inr newTaskStats \<Rightarrow>
                 (let c1 = (if allowDynamicHousekeeping c \<and> get_TaskStats c = newTaskStats
                            then c\<lparr>loadreaderInterval :=
                                   DurationMin (loadreaderInterval c * 2) (MaxLoadReaderInterval fl)\<rparr>
                            else c\<lparr>loadreaderInterval := LoadreaderInterval fl\<rparr>);
                      c2 = updateTaskStats newTaskStats c1;
                      c3 = updateLoadAvg fa probeTime newTaskStats c2
                  in Inr (None, c3))))"

subsection \<open>Housekeeping\<close>

definition updateCustomStats ::
    "collector \<Rightarrow> handler \<Rightarrow> (string \<times> MetricVal list) list option \<times> error option" where
  "updateCustomStats col h =
     (let (next_time, customStats, customStatsErr) = cm_Collect col in
      case customStatsErr of
        None \<Rightarrow> (customStats, None)
      | Some err \<Rightarrow>
          if \<not> h_Exists_Collect h then (customStats, None)
          else (customStats, Some (Errorf ''%v, continuing to push custom stats'' [AErr err])))"

text \<open>
  \<open>updateStats\<close>. \<open>now\<close> is the clock read compared with the next collection time. The
  sample the handler returns is updated in place and then handed to the cache. When there
  is a summary reader the sample is also given to it; an error of the summary reader is
  only logged at verbosity 2, and the reader's own state is not part of the model. The
  type assertion on the collector manager panics unless the manager is a
  \<open>*GenericCollectorManager\<close>. The tracker's own fields are only read.
\<close>

definition updateStats ::
    "float64_arith \<Rightarrow> 'c cache_ops \<Rightarrow> handler \<Rightarrow> collector \<Rightarrow> Time \<Rightarrow> containerData \<Rightarrow> 'c
      \<Rightarrow> panic + (error option \<times> containerData \<times> 'c)" where
  "updateStats fa ops h col now c memoryCache =
     (let (stats_ptr, statsErr0) = h_GetStats h in
      if statsErr0 \<noteq> None \<and> \<not> h_Exists_GetStats h then Inr (None, c, memoryCache)
      else
        (let statsErr = (case statsErr0 of
                           None \<Rightarrow> None
                         | Some err \<Rightarrow> Some (Errorf ''%v, continuing to push stats'' [AErr err]))
         in case stats_ptr of
              None \<Rightarrow> Inr (statsErr, c, memoryCache)
            | Some stats \<Rightarrow>
                (let load = LoadAvg c;
                     stats1 = (if 0 \<le> load
                               then stats\<lparr>Cpu := (Cpu stats)\<lparr>LoadAverage :=
                                        int32_of_float64 (f64_mul fa load 1000)\<rparr>\<rparr>
                               else stats);
                     stats2 = stats1\<lparr>TaskStats := get_TaskStats c\<rparr>
                 in case manager col of
                      GenericCollectorManager n_collectors next_collection \<Rightarrow>
                        (let (stats3, customStatsErr) =
                               (if 0 < n_collectors \<and> next_collection < now
                                then (let (customStats, err) = updateCustomStats col h
                                      in ((case customStats of
                                             None \<Rightarrow> stats2
                                           | Some cs \<Rightarrow> stats2\<lparr>CustomMetrics := Some cs\<rparr>), err))
                                else (stats2, None))
                         in case h_ContainerReference h of
                              Inl err \<Rightarrow>
                                if \<not> h_Exists_ContainerReference h then Inr (None, c, memoryCache)
                                else Inr (Some err, c, memoryCache)
                            | Inr ref \<Rightarrow>
                                (let (err, memoryCache') = cache_AddStats ops ref stats3 memoryCache
                                 in if err \<noteq> None then Inr (err, c, memoryCache')
                                    else if statsErr \<noteq> None then Inr (statsErr, c, memoryCache')
                                    else Inr (customStatsErr, c, memoryCache')))
                    | _ \<Rightarrow> Inl (Panic ''interface conversion: not *collector.GenericCollectorManager''))))"

text \<open>
  \<open>doWithTimeout\<close>: the method runs in the background; \<open>timed_out\<close> says whether the
  timeout fired before it finished, in which case the process writes the line
  \<open>Timed out for: %s\<close> and the goroutine stacks and panics; the model keeps the panic.
  Otherwise an error of the method is logged when \<open>allowErrorLogging\<close> permits. A panic
  of the method is a panic of the process.
\<close>

definition doWithTimeout ::
    "(containerData \<Rightarrow> 'w \<Rightarrow> panic + (error option \<times> containerData \<times> 'w)) \<Rightarrow> bool \<Rightarrow> Time \<Rightarrow> Time
      \<Rightarrow> containerData \<Rightarrow> 'w \<Rightarrow> panic + (log_line list \<times> containerData \<times> 'w)" where
  "doWithTimeout meth timed_out now_since now_set c w =
     (if timed_out then Inl (Panic ''Aborting!'')
      else
        (case meth c w of
           Inl p \<Rightarrow> Inl p
         | Inr (err, c1, w1) \<Rightarrow>
             (case err of
                None \<Rightarrow> Inr ([], c1, w1)
              | Some e \<Rightarrow>
                  (let (allowed, c2) = allowErrorLogging now_since now_set c1
                   in if allowed
                      then Inr ([Info ''Failed to update stats for container \"%s\": %s''
                                   [AStr (Name (Ref (info c2))), AErr e]], c2, w1)
                      else Inr ([], c2, w1)))))"

text \<open>
  The sample as \<open>updateStats\<close> has it when it reaches the cache: the handler's sample
  with the load average, the task stats and the custom metrics written into it.
\<close>

definition sample_to_push ::
    "float64_arith \<Rightarrow> handler \<Rightarrow> collector \<Rightarrow> Time \<Rightarrow> containerData \<Rightarrow> ContainerStats \<Rightarrow> ContainerStats" where
  "sample_to_push fa h col now c stats =
     (let s1 = (if 0 \<le> LoadAvg c
               then stats\<lparr>Cpu := (Cpu stats)\<lparr>LoadAverage :=
                        int32_of_float64 (f64_mul fa (LoadAvg c) 1000)\<rparr>\<rparr>
               else stats);
          s2 = s1\<lparr>TaskStats := get_TaskStats c\<rparr>
      in case manager col of
           GenericCollectorManager n next_collection \<Rightarrow>
             if 0 < n \<and> next_collection < now
             then (case fst (updateCustomStats col h) of
                     None \<Rightarrow> s2
                   | Some cs \<Rightarrow> s2\<lparr>CustomMetrics := Some cs\<rparr>)
             else s2
         | _ \<Rightarrow> s2)"

subsection \<open>One iteration of the housekeeping loop\<close>

definition Millisecond :: Duration where
  "Millisecond = 1000000"

text \<open>The threshold computed before the loop: 100 ms, or half the flag when that is less.\<close>

definition longHousekeeping :: "flags \<Rightarrow> Duration" where
  "longHousekeeping fl =
     (let half = word_of_int (sint (HousekeepingInterval fl) sdiv 2) :: Duration in
      if sint half < sint (100 * Millisecond) then half else 100 * Millisecond)"

text \<open>
  What one iteration reads from outside: whether the stop signal is there, whether the
  timeout fires, the clock at each place it is read (for \<open>allowErrorLogging\<close> a pair: the
  read in \<open>time.Since\<close> and the read in \<open>time.Now\<close>), and \<open>units.HumanSize\<close>.
\<close>

record housekeeping_io =
  stop_signalled :: bool
  timed_out :: bool
  clock_start :: Time
  clock_updateStats :: Time
  clock_update_log :: "Time \<times> Time"
  clock_end :: Time
  clock_usage_log :: "Time \<times> Time"
  clock_adjust_log :: "Time \<times> Time"
  units_HumanSize :: "real \<Rightarrow> string"

text \<open>The block \<open>if c.logUsage { ... }\<close> of the loop.\<close>

definition logUsageStep ::
    "float64_arith \<Rightarrow> 'c cache_ops \<Rightarrow> housekeeping_io \<Rightarrow> containerData \<Rightarrow> 'c
      \<Rightarrow> log_line list \<times> containerData" where
  "logUsageStep fa ops io c memoryCache =
     (if \<not> logUsage c then ([], c)
      else
        (let numSamples = 60 in
         case cache_RecentStats ops (Name (Ref (info c))) numSamples memoryCache of
           Inl err \<Rightarrow>
             (let (allowed, c1) = allowErrorLogging (fst (clock_usage_log io)) (snd (clock_usage_log io)) c
              in (if allowed
                  then [Info ''[%s] Failed to get recent stats for logging usage: %v''
                          [AStr (Name (Ref (info c1))), AErr err]]
                  else [], c1))
         | Inr stats \<Rightarrow>
             if length stats < numSamples then ([], c)
             else
               (let usageCpuNs =
                      fold (\<lambda>i acc. acc + (Total (Usage (Cpu (stats ! i))) - Total (Usage (Cpu (stats ! (i - 1))))))
                        [1 ..< length stats] (0 :: u64);
                    usageMemory = Memory_Usage (Memory (stats ! (numSamples - 1)));
                    instantUsageInCores =
                      f64_div fa
                        (float64_of_uint64 (Total (Usage (Cpu (stats ! (numSamples - 1))))
                                            - Total (Usage (Cpu (stats ! (numSamples - 2))))))
                        (float64_of_int64 (time_Sub (Timestamp (stats ! (numSamples - 1)))
                                                    (Timestamp (stats ! (numSamples - 2)))));
                    usageInCores =
                      f64_div fa (float64_of_uint64 usageCpuNs)
                        (float64_of_int64 (time_Sub (Timestamp (stats ! (numSamples - 1)))
                                                    (Timestamp (stats ! 0))));
                    usageInHuman = units_HumanSize io (float64_of_uint64 usageMemory)
                in ([Info ''[%s] %.3f cores (average: %.3f cores), %s of memory''
                       [AStr (Name (Ref (info c))), AFloat instantUsageInCores, AFloat usageInCores,
                        AStr usageInHuman]], c))))"

text \<open>
  The body of the loop in \<open>doHousekeepingLoop\<close>, from the \<open>select\<close> to the call of
  \<open>adjustHousekeepingInterval\<close> and its log line. The iteration stops the loop on the stop
  signal and otherwise goes on; it yields the lines logged, the tracker and the cache. The
  sleep until the next iteration (jitter and clock) comes after and touches none of them.
\<close>

datatype 'c iteration = stopped | continues "log_line list" containerData 'c

definition housekeepingIteration ::
    "float64_arith \<Rightarrow> flags \<Rightarrow> 'c cache_ops \<Rightarrow> handler \<Rightarrow> collector \<Rightarrow> housekeeping_io
      \<Rightarrow> containerData \<Rightarrow> 'c \<Rightarrow> panic + 'c iteration" where
  "housekeepingIteration fa fl ops h col io c memoryCache =
     (if stop_signalled io then Inr stopped
      else
        (case doWithTimeout (updateStats fa ops h col (clock_updateStats io)) (timed_out io)
                (fst (clock_update_log io)) (snd (clock_update_log io)) c memoryCache of
           Inl p \<Rightarrow> Inl p
         | Inr (log1, c1, memoryCache1) \<Rightarrow>
             (let duration = time_Since (clock_end io) (clock_start io);
                  log2 = (if sint (longHousekeeping fl) \<le> sint duration
                          then [Verbose 3 ''[%s] Housekeeping took %s''
                                  [AStr (Name (Ref (info c1))), ADuration duration]]
                          else []);
                  (log3, c2) = logUsageStep fa ops io c1 memoryCache1;
                  (err, c3) = adjustHousekeepingInterval fl ops memoryCache1 c2;
                  (log4, c4) =
                    (case err of
                       None \<Rightarrow> ([], c3)
                     | Some e \<Rightarrow>
                         (let (allowed, c') =
                                allowErrorLogging (fst (clock_adjust_log io)) (snd (clock_adjust_log io)) c3
                          in (if allowed
                              then [Warning ''Failed to get RecentStats(%q) while determining the next housekeeping: %v''
                                      [AStr (Name (Ref (info c'))), AErr e]]
                              else [], c')))
              in Inr (continues (log1 @ log2 @ log3 @ log4) c4 memoryCache1))))"

text \<open>
  The lines the tracker logs for an error: a failed \<open>updateStats\<close>, a failed
  \<open>RecentStats\<close> in usage logging, and the warning after \<open>adjustHousekeepingInterval\<close>.
\<close>

definition update_failure_line :: "log_line \<Rightarrow> bool" where
  "update_failure_line l =
     (case l of
        Info f args \<Rightarrow> f = ''Failed to update stats for container \"%s\": %s''
      | Warning f args \<Rightarrow> False
      | Verbose n f args \<Rightarrow> False)"

definition error_line :: "log_line \<Rightarrow> bool" where
  "error_line l =
     (case l of
        Info f args \<Rightarrow>
          f = ''Failed to update stats for container \"%s\": %s''
          \<or> f = ''[%s] Failed to get recent stats for logging usage: %v''
      | Warning f args \<Rightarrow> True
      | Verbose n f args \<Rightarrow> False)"

subsection \<open>Spec, subcontainers and construction\<close>

text \<open>A method call on a nil collector manager dereferences nil.\<close>

definition updateSpec :: "handler \<Rightarrow> collector \<Rightarrow> containerData \<Rightarrow> panic + (error option \<times> containerData)" where
  "updateSpec h col c =
     (case h_GetSpec h of
        Inl err \<Rightarrow> if \<not> h_Exists_GetSpec h then Inr (None, c) else Inr (Some err, c)
      | Inr spec \<Rightarrow>
          if manager col = nil_manager
          then Inl (Panic ''invalid memory address or nil pointer dereference'')
          else
            (case cm_GetSpec col of
               Inl err \<Rightarrow> Inr (Some err, c)
             | Inr customMetrics \<Rightarrow>
                 (let spec1 = (if 0 < length customMetrics
                               then spec\<lparr>HasCustomMetrics := True, Spec_CustomMetrics := customMetrics\<rparr>
                               else spec)
                  in Inr (None, c\<lparr>info := (info c)\<lparr>Spec := spec1\<rparr>\<rparr>))))"

text \<open>
  \<open>sort.Sort\<close> on the references, with the order package info gives them, is the
  parameter \<open>sortRefs\<close>.
\<close>

definition updateSubcontainers ::
    "(ContainerReference list \<Rightarrow> ContainerReference list) \<Rightarrow> handler \<Rightarrow> containerData
      \<Rightarrow> error option \<times> containerData" where
  "updateSubcontainers sortRefs h c =
     (case h_ListContainers h of
        Inl err \<Rightarrow> if \<not> h_Exists_ListContainers h then (None, c) else (Some err, c)
      | Inr subcontainers \<Rightarrow>
          (None, c\<lparr>info := (info c)\<lparr>Subcontainers := sortRefs subcontainers\<rparr>\<rparr>))"

text \<open>The zero \<open>time.Time\<close> (year 1), counted from the Unix epoch, and the zero values.\<close>

definition zero_Time :: Time where
  "zero_Time = - 62135596800000000000"

definition zero_LoadStats :: LoadStats where
  "zero_LoadStats = \<lparr>NrRunning = 0, NrUninterruptible = 0, NrIoWait = 0\<rparr>"

definition zero_containerInfo :: containerInfo where
  "zero_containerInfo =
     \<lparr>Ref = \<lparr>Name = [], Aliases = [], Namespace = []\<rparr>, Subcontainers = [],
      Spec = \<lparr>HasCustomMetrics = False, Spec_CustomMetrics = []\<rparr>\<rparr>"

text \<open>
  \<open>newContainerData\<close>. \<open>memoryCache_nil\<close> says whether the cache pointer is nil, the
  handler is \<open>None\<close> when nil; \<open>cpuload_New\<close> and \<open>summary_New\<close> are the errors of
  \<open>cpuload.New()\<close> and \<open>summary.New(spec)\<close>. The result carries the lines logged.
\<close>

definition newContainerData ::
    "flags \<Rightarrow> string \<Rightarrow> bool \<Rightarrow> handler option \<Rightarrow> bool \<Rightarrow> collector \<Rightarrow> Duration \<Rightarrow> bool
      \<Rightarrow> error option \<Rightarrow> error option
      \<Rightarrow> panic + ((error + containerData) \<times> log_line list)" where
  "newContainerData fl containerName memoryCache_nil handler_ptr logUsage_arg col
       maxHousekeepingInterval_arg allowDynamicHousekeeping_arg cpuload_New summary_New =
     (if memoryCache_nil then Inr (Inl (Errorf ''nil memory storage'' []), [])
      else
        (case handler_ptr of
           None \<Rightarrow> Inr (Inl (Errorf ''nil container handler'' []), [])
         | Some h \<Rightarrow>
             (case h_ContainerReference h of
                Inl err \<Rightarrow> Inr (Inl err, [])
              | Inr ref \<Rightarrow>
                  (let cont0 =
                         \<lparr>info = zero_containerInfo,
                          loadReader = False, summaryReader = False,
                          housekeepingInterval = HousekeepingInterval fl,
                          maxHousekeepingInterval = maxHousekeepingInterval_arg,
                          allowDynamicHousekeeping = allowDynamicHousekeeping_arg,
                          lastUpdatedTime = zero_Time, lastErrorTime = zero_Time,
                          loadAvg = - 1.0, loadAvgLastProbeTime = zero_Time,
                          loadreaderInterval = LoadreaderInterval fl,
                          taskStats = zero_LoadStats,
                          logUsage = logUsage_arg\<rparr>;
                       cont1 = cont0\<lparr>info := (info cont0)\<lparr>Ref := ref\<rparr>\<rparr>;
                       (cont2, log1) =
                         (if enableLoadReader fl
                          then (case cpuload_New of
                                  Some err \<Rightarrow>
                                    (cont1, [Info ''Could not initialize cpu load reader for %q: %s''
                                               [AStr (Name ref), AErr err]])
                                | None \<Rightarrow> (cont1\<lparr>loadReader := True\<rparr>, []))
                          else (cont1, []))
                   in case updateSpec h col cont2 of
                        Inl p \<Rightarrow> Inl p
                      | Inr (Some err, cont3) \<Rightarrow> Inr (Inl err, log1)
                      | Inr (None, cont3) \<Rightarrow>
                          (case summary_New of
                             Some err \<Rightarrow>
                               Inr (Inr (cont3\<lparr>summaryReader := False\<rparr>),
                                    log1 @ [Warning ''Failed to create summary reader for %q: %v''
                                              [AStr (Name ref), AErr err]])
                           | None \<Rightarrow> Inr (Inr (cont3\<lparr>summaryReader := True\<rparr>), log1))))))"

text \<open>
  Observations of the load smoother one after the other: each is a call
  \<open>updateLoadAvg(probeTime, newTaskStats)\<close>.
\<close>

fun observations :: "float64_arith \<Rightarrow> (Time \<times> LoadStats) list \<Rightarrow> containerData \<Rightarrow> containerData" where
  "observations fa [] c = c"
| "observations fa ((probeTime, newTaskStats) # later) c =
     observations fa later (updateLoadAvg fa probeTime newTaskStats c)"

subsection \<open>GetInfo\<close>

text \<open>
  \<open>GetInfo\<close> returns a pointer. Trackers live in a store at addresses; the receiver
  \<open>c\<close> is an address, and \<open>&c.info\<close> is the pointer \<open>info_of\<close> that address: writing
  through it writes the field \<open>info\<close> of the tracker stored there.
\<close>

type_synonym addr = nat

type_synonym store = "addr \<rightharpoonup> containerData"

datatype containerInfo_ptr = info_of addr

definition write_ptr :: "containerInfo_ptr \<Rightarrow> containerInfo \<Rightarrow> store \<Rightarrow> store" where
  "write_ptr p v s =
     (case p of info_of a \<Rightarrow> (case s a of None \<Rightarrow> s | Some c \<Rightarrow> s(a \<mapsto> c\<lparr>info := v\<rparr>)))"

definition GetInfo ::
    "(ContainerReference list \<Rightarrow> ContainerReference list) \<Rightarrow> handler \<Rightarrow> collector \<Rightarrow> Time \<Rightarrow> Time
      \<Rightarrow> addr \<Rightarrow> store \<Rightarrow> panic + ((error + containerInfo_ptr) \<times> store)" where
  "GetInfo sortRefs h col now_since now_set a s =
     (case s a of
        None \<Rightarrow> Inl (Panic ''invalid memory address or nil pointer dereference'')
      | Some c \<Rightarrow>
          if sint (5 * Second) < sint (time_Since now_since (lastUpdatedTime c))
          then
            (case updateSpec h col c of
               Inl p \<Rightarrow> Inl p
             | Inr (Some err, c1) \<Rightarrow> Inr (Inl err, s(a \<mapsto> c1))
             | Inr (None, c1) \<Rightarrow>
                 (case updateSubcontainers sortRefs h c1 of
                    (Some err, c2) \<Rightarrow> Inr (Inl err, s(a \<mapsto> c2))
                  | (None, c2) \<Rightarrow> Inr (Inr (info_of a), s(a \<mapsto> c2\<lparr>lastUpdatedTime := now_set\<rparr>))))
          else Inr (Inr (info_of a), s))"

subsection \<open>The process list\<close>

record ProcessInfo =
  Proc_User :: string
  Pid :: int
  Ppid :: int
  StartTime :: string
  PercentCpu :: real
  PercentMemory :: real
  Proc_RSS :: u64
  VirtualSize :: u64
  Status :: string
  RunningTime :: string
  Cmd :: string
  CgroupPath :: string

text \<open>
  The functions of Go's standard library that the process list calls are parameters:
  \<open>strings.Fields\<close>, \<open>strconv.Atoi\<close>, \<open>strconv.ParseFloat(s, bitSize)\<close>,
  \<open>strconv.ParseUint(s, base, bitSize)\<close>, \<open>FindSubmatch\<close> of a compiled regular
  expression (given by its source; no match is the empty list) and the output of
  \<open>exec.Command(name, args...).Output()\<close>.
\<close>

record golib =
  strings_Fields :: "string \<Rightarrow> string list"
  strconv_Atoi :: "string \<Rightarrow> error + int"
  strconv_ParseFloat :: "string \<Rightarrow> nat \<Rightarrow> error + real"
  strconv_ParseUint :: "string \<Rightarrow> nat \<Rightarrow> nat \<Rightarrow> error + u64"
  regexp_FindSubmatch :: "string \<Rightarrow> string \<Rightarrow> string list"
  exec_Output :: "string \<Rightarrow> string list \<Rightarrow> error + string"

text \<open>\<open>strings.Split(s, "\n")\<close>: the pieces between line feeds, at least one piece.\<close>

fun Split_lines :: "string \<Rightarrow> string list" where
  "Split_lines [] = [[]]"
| "Split_lines (ch # rest) =
     (if ch = CHR 0x0A then [] # Split_lines rest
      else (case Split_lines rest of
              [] \<Rightarrow> [[ch]]
            | piece # pieces \<Rightarrow> (ch # piece) # pieces))"

definition cgroupPathRegExp :: string where
  "cgroupPathRegExp = ''devices[^:]*:(.*?)[,;$]''"

definition getCgroupPath :: "golib \<Rightarrow> string \<Rightarrow> string \<times> error option" where
  "getCgroupPath lib cgroups =
     (if cgroups = ''-'' then (''/'', None)
      else
        (let matches = regexp_FindSubmatch lib cgroupPathRegExp cgroups in
         if length matches \<noteq> 2 then (''/'', None)
         else (matches ! 1, None)))"

definition getPsOutput :: "golib \<Rightarrow> bool \<Rightarrow> string \<Rightarrow> error + string" where
  "getPsOutput lib inHostNamespace format =
     (let (command, args) =
            (if \<not> inHostNamespace then (''/usr/sbin/chroot'', [''/rootfs'', ''ps''])
             else (''ps'', []));
          args1 = args @ [''-e'', ''-o'', format]
      in case exec_Output lib command args1 of
           Inl err \<Rightarrow> Inl (Errorf ''failed to execute %q command: %v'' [AStr command, AErr err])
         | Inr out \<Rightarrow> Inr out)"

text \<open>
  The body of the loop in \<open>GetProcessList\<close> for one non-empty line: it returns an
  error, goes on to the next line without appending, or appends one entry.
\<close>

datatype line_result = line_error error | line_skipped | line_appended ProcessInfo

definition processLine :: "golib \<Rightarrow> containerData \<Rightarrow> string \<Rightarrow> bool \<Rightarrow> string \<Rightarrow> line_result" where
  "processLine lib c cadvisorContainer inHostNamespace line =
     (let isRoot = (Name (Ref (info c)) = ''/'');
          expectedFields = 12;
          fields = strings_Fields lib line
      in
      if length fields < expectedFields
      then line_error (Errorf ''expected at least %d fields, found %d: output: %q''
                         [AInt (int expectedFields), AInt (int (length fields)), AStr line])
      else
      case strconv_Atoi lib (fields ! 1) of
        Inl err \<Rightarrow> line_error (Errorf ''invalid pid %q: %v'' [AStr (fields ! 1), AErr err])
      | Inr pid \<Rightarrow>
      case strconv_Atoi lib (fields ! 2) of
        Inl err \<Rightarrow> line_error (Errorf ''invalid ppid %q: %v'' [AStr (fields ! 2), AErr err])
      | Inr ppid \<Rightarrow>
      case strconv_ParseFloat lib (fields ! 4) 32 of
        Inl err \<Rightarrow> line_error (Errorf ''invalid cpu percent %q: %v'' [AStr (fields ! 4), AErr err])
      | Inr percentCpu \<Rightarrow>
      case strconv_ParseFloat lib (fields ! 5) 32 of
        Inl err \<Rightarrow> line_error (Errorf ''invalid memory percent %q: %v'' [AStr (fields ! 5), AErr err])
      | Inr percentMem \<Rightarrow>
      case strconv_ParseUint lib (fields ! 6) 0 64 of
        Inl err \<Rightarrow> line_error (Errorf ''invalid rss %q: %v'' [AStr (fields ! 6), AErr err])
      | Inr rss0 \<Rightarrow>
      let rss = rss0 * 1024 in
      case strconv_ParseUint lib (fields ! 7) 0 64 of
        Inl err \<Rightarrow> line_error (Errorf ''invalid virtual size %q: %v'' [AStr (fields ! 7), AErr err])
      | Inr vs0 \<Rightarrow>
      let vs = vs0 * 1024 in
      case getCgroupPath lib (fields ! 11) of
        (cgroup, Some err) \<Rightarrow>
          line_error (Errorf ''could not parse cgroup path from %q: %v'' [AStr (fields ! 11), AErr err])
      | (cgroup, None) \<Rightarrow>
      if \<not> inHostNamespace \<and> cadvisorContainer = cgroup \<and> fields ! 10 = ''ps'' then line_skipped
      else
        (let cgroupPath = (if isRoot then cgroup else []) in
         if isRoot \<or> Name (Ref (info c)) = cgroup
         then line_appended
                \<lparr>Proc_User = fields ! 0, Pid = pid, Ppid = ppid, StartTime = fields ! 3,
                 PercentCpu = percentCpu, PercentMemory = percentMem,
                 Proc_RSS = rss, VirtualSize = vs,
                 Status = fields ! 8, RunningTime = fields ! 9, Cmd = fields ! 10,
                 CgroupPath = cgroupPath\<rparr>
         else line_skipped))"

fun processLines ::
    "golib \<Rightarrow> containerData \<Rightarrow> string \<Rightarrow> bool \<Rightarrow> string list \<Rightarrow> ProcessInfo list
      \<Rightarrow> error + ProcessInfo list" where
  "processLines lib c cadvisorContainer inHostNamespace [] processes = Inr processes"
| "processLines lib c cadvisorContainer inHostNamespace (line # rest) processes =
     (if length line = 0 then processLines lib c cadvisorContainer inHostNamespace rest processes
      else
        (case processLine lib c cadvisorContainer inHostNamespace line of
           line_error err \<Rightarrow> Inl err
         | line_skipped \<Rightarrow> processLines lib c cadvisorContainer inHostNamespace rest processes
         | line_appended p \<Rightarrow>
             processLines lib c cadvisorContainer inHostNamespace rest (processes @ [p])))"

definition ps_format :: string where
  "ps_format = ''user,pid,ppid,stime,pcpu,pmem,rss,vsz,stat,time,comm,cgroup''"

definition GetProcessList :: "golib \<Rightarrow> containerData \<Rightarrow> string \<Rightarrow> bool \<Rightarrow> error + ProcessInfo list" where
  "GetProcessList lib c cadvisorContainer inHostNamespace =
     (case getPsOutput lib inHostNamespace ps_format of
        Inl err \<Rightarrow> Inl err
      | Inr out \<Rightarrow>
          (let lines = Split_lines out
           in processLines lib c cadvisorContainer inHostNamespace (drop 1 lines) []))"

text \<open>
  The claim's words for \<open>GetProcessList\<close>: the body rows of a \<open>ps\<close> output, when a row
  is well formed, the cgroup parsed from a row, the agent's own \<open>ps\<close> row, the rows that
  are reported, and the entry reported for a row.
\<close>

definition body_rows :: "string \<Rightarrow> string list" where
  "body_rows out = filter (\<lambda>line. line \<noteq> []) (drop 1 (Split_lines out))"

definition well_formed_row :: "golib \<Rightarrow> string \<Rightarrow> bool" where
  "well_formed_row lib line =
     (let fields = strings_Fields lib line in
      12 \<le> length fields
      \<and> \<not> isl (strconv_Atoi lib (fields ! 1)) \<and> \<not> isl (strconv_Atoi lib (fields ! 2))
      \<and> \<not> isl (strconv_ParseFloat lib (fields ! 4) 32) \<and> \<not> isl (strconv_ParseFloat lib (fields ! 5) 32)
      \<and> \<not> isl (strconv_ParseUint lib (fields ! 6) 0 64) \<and> \<not> isl (strconv_ParseUint lib (fields ! 7) 0 64))"

definition row_cgroup :: "golib \<Rightarrow> string \<Rightarrow> string" where
  "row_cgroup lib line = fst (getCgroupPath lib (strings_Fields lib line ! 11))"

definition own_ps_row :: "golib \<Rightarrow> string \<Rightarrow> bool \<Rightarrow> string \<Rightarrow> bool" where
  "own_ps_row lib cadvisorContainer inHostNamespace line =
     (\<not> inHostNamespace \<and> cadvisorContainer = row_cgroup lib line \<and> strings_Fields lib line ! 10 = ''ps'')"

definition reported_row :: "golib \<Rightarrow> containerData \<Rightarrow> string \<Rightarrow> bool \<Rightarrow> string \<Rightarrow> bool" where
  "reported_row lib c cadvisorContainer inHostNamespace line =
     ((Name (Ref (info c)) = ''/'' \<or> row_cgroup lib line = Name (Ref (info c)))
      \<and> \<not> own_ps_row lib cadvisorContainer inHostNamespace line)"

definition row_entry :: "golib \<Rightarrow> containerData \<Rightarrow> string \<Rightarrow> ProcessInfo" where
  "row_entry lib c line =
     (let fields = strings_Fields lib line in
      \<lparr>Proc_User = fields ! 0,
       Pid = projr (strconv_Atoi lib (fields ! 1)),
       Ppid = projr (strconv_Atoi lib (fields ! 2)),
       StartTime = fields ! 3,
       PercentCpu = projr (strconv_ParseFloat lib (fields ! 4) 32),
       PercentMemory = projr (strconv_ParseFloat lib (fields ! 5) 32),
       Proc_RSS = projr (strconv_ParseUint lib (fields ! 6) 0 64) * 1024,
       VirtualSize = projr (strconv_ParseUint lib (fields ! 7) 0 64) * 1024,
       Status = fields ! 8, RunningTime = fields ! 9, Cmd = fields ! 10,
       CgroupPath = (if Name (Ref (info c)) = ''/'' then row_cgroup lib line else [])\<rparr>)"

subsection \<open>Values for running the model\<close>

text \<open>
  Modelled from the spec: the memory cache (package cache/memory) is not among the
  sources. The spec says: \<open>add(ref, stats)\<close>; \<open>recent(name, start?, end?, max_count)\<close>
  gives ordered samples newest-first. Here a cache maps a container name to its samples,
  newest first, and neither method fails.
\<close>

definition spec_cache_ops :: "(string \<Rightarrow> ContainerStats list) cache_ops" where
  "spec_cache_ops =
     \<lparr>cache_AddStats = (\<lambda>ref stats m. (None, m(Name ref := stats # m (Name ref)))),
      cache_RecentStats = (\<lambda>name n m. Inr (take n (m name)))\<rparr>"

definition zero_stats :: ContainerStats where
  "zero_stats =
     \<lparr>Timestamp = 0,
      Cpu = \<lparr>Usage = \<lparr>Total = 0, System = 0, User = 0, Throttled = 0\<rparr>, LoadAverage = 0\<rparr>,
      DiskIo = \<lparr>IoServiceBytes = [], IoServiced = []\<rparr>,
      Memory = \<lparr>Memory_Usage = 0, Memory_RSS = 0\<rparr>,
      Network = \<lparr>RxBytes = 0, RxErrors = 0, TxBytes = 0, TxErrors = 0\<rparr>,
      Filesystem = [],
      TaskStats = \<lparr>NrRunning = 0, NrUninterruptible = 0, NrIoWait = 0\<rparr>,
      CustomMetrics = None\<rparr>"

definition docker_ref :: ContainerReference where
  "docker_ref = \<lparr>Name = ''/docker/abc'', Aliases = [], Namespace = []\<rparr>"

definition default_flags :: flags where
  "default_flags =
     \<lparr>HousekeepingInterval = Second, enableLoadReader = True, LoadreaderInterval = Second,
      MaxLoadReaderInterval = 60 * Second, PanicTimeout = Minute\<rparr>"

text \<open>A tracker with dynamic housekeeping, baseline one second and ceiling eight seconds.\<close>

definition docker_tracker :: containerData where
  "docker_tracker =
     \<lparr>info = \<lparr>Ref = docker_ref, Subcontainers = [],
              Spec = \<lparr>HasCustomMetrics = False, Spec_CustomMetrics = []\<rparr>\<rparr>,
      loadReader = True, summaryReader = False,
      housekeepingInterval = Second, maxHousekeepingInterval = 8 * Second,
      allowDynamicHousekeeping = True,
      lastUpdatedTime = 0, lastErrorTime = 0,
      loadAvg = - 1, loadAvgLastProbeTime = 0,
      loadreaderInterval = Second,
      taskStats = \<lparr>NrRunning = 0, NrUninterruptible = 0, NrIoWait = 0\<rparr>,
      logUsage = False\<rparr>"

definition empty_cache :: "string \<Rightarrow> ContainerStats list" where
  "empty_cache = (\<lambda>name. [])"

text \<open>
  A handler of a live container, one whose container is gone, one that returns a sample
  together with an error, and one that does so and then fails to give its reference.
\<close>

definition live_handler :: handler where
  "live_handler =
     \<lparr>h_ContainerReference = Inr docker_ref,
      h_GetSpec = Inr \<lparr>HasCustomMetrics = False, Spec_CustomMetrics = []\<rparr>,
      h_GetStats = (Some zero_stats, None),
      h_ListContainers = Inr [],
      h_GetCgroupPath = Inr ''/sys/fs/cgroup/cpu/docker/abc'',
      h_Exists_GetSpec = True, h_Exists_GetStats = True, h_Exists_Collect = True,
      h_Exists_ContainerReference = True, h_Exists_ListContainers = True\<rparr>"

definition gone_handler :: handler where
  "gone_handler =
     live_handler\<lparr>h_GetStats := (None, Some (Error ''no such container'')),
       h_Exists_GetSpec := False, h_Exists_GetStats := False, h_Exists_Collect := False,
       h_Exists_ContainerReference := False, h_Exists_ListContainers := False\<rparr>"

definition partial_handler :: handler where
  "partial_handler = live_handler\<lparr>h_GetStats := (Some zero_stats, Some (Error ''network stats failed''))\<rparr>"

definition no_reference_handler :: handler where
  "no_reference_handler = partial_handler\<lparr>h_ContainerReference := Inl (Error ''no reference'')\<rparr>"

definition generic_collector :: collector where
  "generic_collector =
     \<lparr>manager = GenericCollectorManager 0 0, cm_GetSpec = Inr [], cm_Collect = (0, None, None)\<rparr>"

text \<open>The tracker \<open>newContainerData\<close> builds for the live container, with a load reader.\<close>

definition fresh_tracker :: containerData where
  "fresh_tracker =
     \<lparr>info = \<lparr>Ref = docker_ref, Subcontainers = [],
              Spec = \<lparr>HasCustomMetrics = False, Spec_CustomMetrics = []\<rparr>\<rparr>,
      loadReader = True, summaryReader = True,
      housekeepingInterval = Second, maxHousekeepingInterval = 8 * Second,
      allowDynamicHousekeeping = True,
      lastUpdatedTime = zero_Time, lastErrorTime = zero_Time,
      loadAvg = - 1, loadAvgLastProbeTime = zero_Time,
      loadreaderInterval = Second,
      taskStats = zero_LoadStats,
      logUsage = False\<rparr>"

definition three_running :: LoadStats where
  "three_running = \<lparr>NrRunning = 3, NrUninterruptible = 0, NrIoWait = 0\<rparr>"

definition five_running :: LoadStats where
  "five_running = \<lparr>NrRunning = 5, NrUninterruptible = 0, NrIoWait = 0\<rparr>"

text \<open>A store with the fresh tracker at address 0, its spec refreshed at instant 0.\<close>

definition tracker_store :: store where
  "tracker_store = [0 \<mapsto> fresh_tracker\<lparr>lastUpdatedTime := 0\<rparr>]"

text \<open>
  An instance of the library functions for running the process list on an example:
  fields separated by ASCII white space, numbers written in decimal digits, and the
  leftmost match of \<open>cgroupPathRegExp\<close>.
\<close>

definition is_space :: "char \<Rightarrow> bool" where
  "is_space ch = (ch \<in> set [CHR '' '', CHR 0x09, CHR 0x0A, CHR 0x0B, CHR 0x0C, CHR 0x0D])"

fun ascii_fields :: "string \<Rightarrow> string \<Rightarrow> string list" where
  "ascii_fields [] cur = (if cur = [] then [] else [cur])"
| "ascii_fields (ch # rest) cur =
     (if is_space ch then (if cur = [] then ascii_fields rest [] else cur # ascii_fields rest [])
      else ascii_fields rest (cur @ [ch]))"

definition digit_of :: "char \<Rightarrow> nat option" where
  "digit_of ch = (let n = (of_char ch :: nat) in if 48 \<le> n \<and> n \<le> 57 then Some (n - 48) else None)"

fun decimal :: "string \<Rightarrow> nat \<Rightarrow> nat option" where
  "decimal [] acc = Some acc"
| "decimal (ch # rest) acc =
     (case digit_of ch of None \<Rightarrow> None | Some d \<Rightarrow> decimal rest (10 * acc + d))"

definition parse_decimal :: "string \<Rightarrow> nat option" where
  "parse_decimal s = (if s = [] then None else decimal s 0)"

definition decimal_Atoi :: "string \<Rightarrow> error + int" where
  "decimal_Atoi s =
     (case parse_decimal s of None \<Rightarrow> Inl (Error ''invalid syntax'') | Some n \<Rightarrow> Inr (int n))"

definition decimal_ParseUint :: "string \<Rightarrow> nat \<Rightarrow> nat \<Rightarrow> error + u64" where
  "decimal_ParseUint s base bitSize =
     (case parse_decimal s of
        None \<Rightarrow> Inl (Error ''invalid syntax'')
      | Some n \<Rightarrow> if n < 2 ^ 64 then Inr (of_nat n) else Inl (Error ''value out of range''))"

definition decimal_ParseFloat :: "string \<Rightarrow> nat \<Rightarrow> error + real" where
  "decimal_ParseFloat s bitSize =
     (let whole = takeWhile (\<lambda>ch. ch \<noteq> CHR ''.'') s;
          frac = drop 1 (dropWhile (\<lambda>ch. ch \<noteq> CHR ''.'') s)
      in case (parse_decimal whole, parse_decimal frac) of
           (Some w, Some f) \<Rightarrow> Inr (real w + real f / 10 ^ length frac)
         | _ \<Rightarrow> Inl (Error ''invalid syntax''))"

fun find_devices :: "string \<Rightarrow> string list" where
  "find_devices [] = []"
| "find_devices (ch # rest) =
     (let s = ch # rest in
      if take 7 s = ''devices''
      then
        (let name_rest = takeWhile (\<lambda>x. x \<noteq> CHR '':'') (drop 7 s);
             after_name = dropWhile (\<lambda>x. x \<noteq> CHR '':'') (drop 7 s);
             group = takeWhile (\<lambda>x. x \<notin> set '',;$'') (drop 1 after_name);
             after_group = dropWhile (\<lambda>x. x \<notin> set '',;$'') (drop 1 after_name)
         in if after_name = [] \<or> after_group = [] \<or> CHR 0x0A \<in> set group then find_devices rest
            else [take (7 + length name_rest + 1 + length group + 1) s, group])
      else find_devices rest)"

definition ps_output :: string where
  "ps_output =
     ''USER PID PPID STIME %CPU %MEM RSS VSZ STAT TIME COMMAND CGROUP'' @ [CHR 0x0A] @
     ''root 1 0 10:00 0.0 0.5 1024 2048 Ss 00:00:01 init 4:devices:/,3:cpu:/'' @ [CHR 0x0A] @
     ''root 42 1 10:01 1.5 0.5 2048 4096 S 00:00:02 nginx 4:devices:/docker/abc,3:cpu:/docker/abc'' @ [CHR 0x0A] @
     ''app 77 1 10:02 0.0 0.0 512 1024 R 00:00:00 ps 4:devices:/docker/cadvisor,3:cpu:/docker/cadvisor'' @ [CHR 0x0A]"

definition example_lib :: golib where
  "example_lib =
     \<lparr>strings_Fields = (\<lambda>s. ascii_fields s []),
      strconv_Atoi = decimal_Atoi,
      strconv_ParseFloat = decimal_ParseFloat,
      strconv_ParseUint = decimal_ParseUint,
      regexp_FindSubmatch = (\<lambda>pattern s. if pattern = cgroupPathRegExp then find_devices s else []),
      exec_Output = (\<lambda>command args. Inr ps_output)\<rparr>"

definition root_tracker :: containerData where
  "root_tracker = fresh_tracker\<lparr>info := (info fresh_tracker)\<lparr>Ref := \<lparr>Name = ''/'', Aliases = [], Namespace = []\<rparr>\<rparr>\<rparr>"

text \<open>
  The arithmetic that does not round, an instance of the parameter for running the
  model. Its result is that of \<open>float64\<close> wherever the exact result is a \<open>float64\<close>:
  sums and products of small integers and of dyadic fractions, and \<open>exp 0 = 1\<close>.
\<close>

definition exact_arith :: float64_arith where
  "exact_arith = \<lparr>f64_add = (+), f64_sub = (-), f64_mul = (*), f64_div = (/), math_Exp = exp\<rparr>"

text \<open>
  A cache that has lost the container: \<open>RecentStats\<close> fails. An iteration two minutes
  after instant 0 that takes no time, with no stop signal and no timeout.
\<close>

definition lost_cache_ops :: "(string \<Rightarrow> ContainerStats list) cache_ops" where
  "lost_cache_ops =
     \<lparr>cache_AddStats = (\<lambda>ref stats m. (None, m(Name ref := stats # m (Name ref)))),
      cache_RecentStats = (\<lambda>name n m. Inl (Error ''unable to find data for container''))\<rparr>"

definition quiet_io :: housekeeping_io where
  "quiet_io =
     \<lparr>stop_signalled = False, timed_out = False,
      clock_start = 120000000000, clock_updateStats = 120000000000,
      clock_update_log = (120000000000, 120000000000),
      clock_end = 120000000000,
      clock_usage_log = (120000000000, 120000000000),
      clock_adjust_log = (120000000000, 120000000000),
      units_HumanSize = (\<lambda>size. ''0B'')\<rparr>"

section \<open>Theorems\<close>

subsection \<open>ConvertibleBool\<close>

text \<open>
  \<open>UnmarshalJSON\<close> returns an error exactly when the input is none of the four
  strings, and the variable it is called on keeps its value.
\<close>

lemma UnmarshalJSON_error_iff:
  "(snd (UnmarshalJSON v data) \<noteq> None \<longleftrightarrow> data \<notin> {''1'', ''true'', ''0'', ''false''})
   \<and> fst (UnmarshalJSON v data) = v"
  by (simp add: UnmarshalJSON_def UnmarshalJSON_body_def split: prod.splits)

text \<open>
  C9. The claim says that the input \<open>true\<close> sets the receiver to true. The method has a
  value receiver: called on a variable holding false with the input \<open>true\<close>, it returns
  nil and the variable still holds false.
\<close>

theorem UnmarshalJSON_true_leaves_false:
  "UnmarshalJSON False ''true'' = (False, None)"
  by (simp add: UnmarshalJSON_def UnmarshalJSON_body_def)

subsection \<open>The sink's AddStats\<close>

text \<open>
  C10. For every container reference and every storage, \<open>AddStats\<close> with a nil stats
  pointer returns nil, leaves the storage (buffered points, last-write time and every
  other field) as it was and hands nothing to the client.
\<close>

theorem AddStats_nil_stats:
  "AddStats io ref None self = Inr (None, self, [])"
  by (simp add: AddStats_def)

subsection \<open>The housekeeping interval\<close>

lemma sint_double:
  fixes x :: "64 word"
  assumes "0 \<le> sint x" "sint x < 2 ^ 62"
  shows "sint (x * 2) = 2 * sint x"
proof -
  have "sint (x * 2) = signed_take_bit 63 (sint x * 2)"
    by (simp add: sint_word_ariths)
  also have "\<dots> = sint x * 2"
    using assms by (intro signed_take_bit_int_eq_self) auto
  finally show ?thesis by simp
qed

lemma min_double_step:
  fixes x M k :: int
  assumes "0 \<le> M" "1 \<le> k"
  shows "min (min (2 * x) M * k) M = min (x * (2 * k)) M"
proof -
  have "M \<le> M * k"
    using assms by (simp add: mult_le_cancel_left1)
  moreover have "min (2 * x) M * k = min (2 * x * k) (M * k)"
    using assms by (simp add: min_mult_distrib_right)
  ultimately show ?thesis
    by (simp add: min_def mult.assoc mult.left_commute)
qed

lemma sint_DurationMin: "sint (DurationMin a b) = min (sint a) (sint b)"
  by (simp add: DurationMin_def min_def)

lemma adjust_equal:
  assumes "allowDynamicHousekeeping c" "equal_samples ops (Name (Ref (info c))) m"
  shows "adjustHousekeepingInterval fl ops m c =
     (None, c\<lparr>housekeepingInterval := DurationMin (housekeepingInterval c * 2) (maxHousekeepingInterval c)\<rparr>)"
  using assms by (auto simp: adjustHousekeepingInterval_def equal_samples_def split: sum.splits)

lemma adjust_differing:
  assumes "allowDynamicHousekeeping c" "differing_samples ops (Name (Ref (info c))) m"
  shows "adjustHousekeepingInterval fl ops m c = (None, c\<lparr>housekeepingInterval := HousekeepingInterval fl\<rparr>)"
  using assms by (auto simp: adjustHousekeepingInterval_def differing_samples_def split: sum.splits)

lemma adjustments_doubling:
  assumes "allowDynamicHousekeeping c"
    and "0 \<le> sint (housekeepingInterval c)"
    and "sint (housekeepingInterval c) \<le> sint (maxHousekeepingInterval c)"
    and "sint (maxHousekeepingInterval c) < 2 ^ 62"
    and "\<forall>m \<in> set ms. equal_samples ops (Name (Ref (info c))) m"
  shows "sint (housekeepingInterval (adjustments fl ops ms c)) =
           min (sint (housekeepingInterval c) * 2 ^ length ms) (sint (maxHousekeepingInterval c))
         \<and> maxHousekeepingInterval (adjustments fl ops ms c) = maxHousekeepingInterval c"
  using assms
proof (induction ms arbitrary: c)
  case Nil
  then show ?case by simp
next
  case (Cons m ms)
  let ?x = "housekeepingInterval c" and ?M = "maxHousekeepingInterval c"
  let ?c1 = "c\<lparr>housekeepingInterval := DurationMin (?x * 2) ?M\<rparr>"
  have step: "adjustHousekeepingInterval fl ops m c = (None, ?c1)"
    using Cons.prems by (intro adjust_equal) auto
  have x2: "sint (?x * 2) = 2 * sint ?x"
    using Cons.prems by (intro sint_double) auto
  have h1: "sint (housekeepingInterval ?c1) = min (2 * sint ?x) (sint ?M)"
    by (simp add: sint_DurationMin x2)
  have ih: "sint (housekeepingInterval (adjustments fl ops ms ?c1)) =
           min (sint (housekeepingInterval ?c1) * 2 ^ length ms) (sint (maxHousekeepingInterval ?c1))
         \<and> maxHousekeepingInterval (adjustments fl ops ms ?c1) = maxHousekeepingInterval ?c1"
    using Cons.prems h1 by (intro Cons.IH) auto
  have M0: "0 \<le> sint ?M" using Cons.prems by linarith
  have "min (min (2 * sint ?x) (sint ?M) * 2 ^ length ms) (sint ?M)
      = min (sint ?x * 2 ^ length (m # ms)) (sint ?M)"
    using min_double_step [OF M0, of "2 ^ length ms" "sint ?x"] by (simp add: mult.commute mult.left_commute)
  then show ?case
    using ih h1 step by simp
qed



text \<open>
  C1. For a tracker with dynamic housekeeping enabled, with baseline and ceiling between
  zero and \<open>2^62\<close> nanoseconds (so that doubling stays inside \<open>int64\<close>): one iteration
  whose two most recent cached samples differ sets the interval to exactly the baseline;
  and, from the baseline, N consecutive iterations whose two most recent cached samples
  are equal leave the interval at \<open>min (baseline * 2^N) ceiling\<close> (for N = 0 the baseline
  must not exceed the ceiling).
\<close>

theorem housekeeping_interval_backoff:
  assumes dyn: "allowDynamicHousekeeping c"
    and base: "0 \<le> sint (HousekeepingInterval fl)" "sint (HousekeepingInterval fl) < 2 ^ 62"
    and ceil: "0 \<le> sint (maxHousekeepingInterval c)" "sint (maxHousekeepingInterval c) < 2 ^ 62"
  shows "(differing_samples ops (Name (Ref (info c))) m \<longrightarrow>
            housekeepingInterval (snd (adjustHousekeepingInterval fl ops m c)) = HousekeepingInterval fl)
       \<and> (housekeepingInterval c = HousekeepingInterval fl
            \<and> (ms = [] \<longrightarrow> sint (HousekeepingInterval fl) \<le> sint (maxHousekeepingInterval c))
            \<and> (\<forall>m \<in> set ms. equal_samples ops (Name (Ref (info c))) m) \<longrightarrow>
            sint (housekeepingInterval (adjustments fl ops ms c)) =
              min (sint (HousekeepingInterval fl) * 2 ^ length ms) (sint (maxHousekeepingInterval c)))"
proof (intro conjI impI)
  assume "differing_samples ops (Name (Ref (info c))) m"
  then show "housekeepingInterval (snd (adjustHousekeepingInterval fl ops m c)) = HousekeepingInterval fl"
    using dyn by (simp add: adjust_differing)
next
  let ?B = "HousekeepingInterval fl" and ?M = "maxHousekeepingInterval c"
  assume a: "housekeepingInterval c = ?B \<and> (ms = [] \<longrightarrow> sint ?B \<le> sint ?M)
      \<and> (\<forall>m \<in> set ms. equal_samples ops (Name (Ref (info c))) m)"
  show "sint (housekeepingInterval (adjustments fl ops ms c)) = min (sint ?B * 2 ^ length ms) (sint ?M)"
  proof (cases ms)
    case Nil
    then show ?thesis using a by simp
  next
    case (Cons m1 rest)
    let ?c1 = "c\<lparr>housekeepingInterval := DurationMin (?B * 2) ?M\<rparr>"
    have step: "adjustHousekeepingInterval fl ops m1 c = (None, ?c1)"
      using adjust_equal [of c ops m1 fl] dyn a Cons by simp
    have h1: "sint (housekeepingInterval ?c1) = min (2 * sint ?B) (sint ?M)"
      using base by (simp add: sint_DurationMin sint_double)
    have "sint (housekeepingInterval (adjustments fl ops rest ?c1)) =
           min (sint (housekeepingInterval ?c1) * 2 ^ length rest) (sint (maxHousekeepingInterval ?c1))
         \<and> maxHousekeepingInterval (adjustments fl ops rest ?c1) = maxHousekeepingInterval ?c1"
      using dyn base ceil a Cons h1 by (intro adjustments_doubling) auto
    moreover have "min (min (2 * sint ?B) (sint ?M) * 2 ^ length rest) (sint ?M)
        = min (sint ?B * 2 ^ length ms) (sint ?M)"
      using min_double_step [OF ceil(1), of "2 ^ length rest" "sint ?B"] Cons
      by (simp add: mult.commute mult.left_commute)
    ultimately show ?thesis
      using step h1 Cons by simp
  qed
qed

text \<open>
  Baseline one second, ceiling eight seconds: four iterations on a cache holding two equal
  samples leave the interval at eight seconds, and one iteration on a cache whose two
  samples differ brings it back to one second.
\<close>

theorem housekeeping_interval_backoff_witness:
  "sint (housekeepingInterval (adjustments default_flags spec_cache_ops
       (replicate 4 ((\<lambda>n. [])(''/docker/abc'' := [zero_stats, zero_stats]))) docker_tracker)) = 8000000000
   \<and> housekeepingInterval (snd (adjustHousekeepingInterval default_flags spec_cache_ops
       ((\<lambda>n. [])(''/docker/abc'' := [zero_stats\<lparr>Timestamp := 1, Memory := \<lparr>Memory_Usage = 5, Memory_RSS = 0\<rparr>\<rparr>, zero_stats]))
       (docker_tracker\<lparr>housekeepingInterval := 8 * Second\<rparr>))) = 1000000000"
  using housekeeping_interval_backoff [of "docker_tracker" default_flags spec_cache_ops "\<lambda>n. []"
      "replicate 4 ((\<lambda>n. [])(''/docker/abc'' := [zero_stats, zero_stats]))"]
    housekeeping_interval_backoff [of "docker_tracker\<lparr>housekeepingInterval := 8 * Second\<rparr>"
      default_flags spec_cache_ops
      "(\<lambda>n. [])(''/docker/abc'' := [zero_stats\<lparr>Timestamp := 1, Memory := \<lparr>Memory_Usage = 5, Memory_RSS = 0\<rparr>\<rparr>, zero_stats])"
      "[]"]
  by (simp add: docker_tracker_def default_flags_def docker_ref_def spec_cache_ops_def
      equal_samples_def differing_samples_def StatsEq_def zero_stats_def Second_def)

subsection \<open>updateStats\<close>

lemma updateStats_push:
  assumes gs: "h_GetStats h = (Some stats, e)"
    and ex: "e = None \<or> h_Exists_GetStats h"
    and gen: "manager col = GenericCollectorManager n next"
    and ref: "h_ContainerReference h = Inr ref"
  shows "updateStats fa ops h col now c m =
     (let statsErr = (case e of None \<Rightarrow> None | Some err \<Rightarrow> Some (Errorf ''%v, continuing to push stats'' [AErr err]));
          customStatsErr = (if 0 < n \<and> next < now then snd (updateCustomStats col h) else None);
          (err, m') = cache_AddStats ops ref (sample_to_push fa h col now c stats) m
      in Inr (if err \<noteq> None then err else if statsErr \<noteq> None then statsErr else customStatsErr, c, m'))"
  using assms
  by (auto simp: updateStats_def sample_to_push_def Let_def split: prod.splits option.splits)


lemma logUsageStep_lines:
  assumes "logUsageStep fa ops io c m = (logs, c')"
  shows "info c' = info c \<and> allowDynamicHousekeeping c' = allowDynamicHousekeeping c
    \<and> (\<forall>l \<in> set logs. \<not> update_failure_line l)
    \<and> (\<not> isl (cache_RecentStats ops (Name (Ref (info c))) 60 m) \<longrightarrow> (\<forall>l \<in> set logs. \<not> error_line l))"
  using assms
  by (auto simp: logUsageStep_def allowErrorLogging_def update_failure_line_def error_line_def Let_def
      split: if_splits sum.splits prod.splits)

lemma adjustHousekeepingInterval_error:
  assumes "adjustHousekeepingInterval fl ops m c = (err, c')"
  shows "info c' = info c \<and> (err \<noteq> None \<longrightarrow> isl (cache_RecentStats ops (Name (Ref (info c))) 2 m))"
  using assms
  by (auto simp: adjustHousekeepingInterval_def split: if_splits sum.splits)

lemma updateStats_gone:
  assumes "snd (h_GetStats h) \<noteq> None" "\<not> h_Exists_GetStats h"
  shows "updateStats fa ops h col now c m = Inr (None, c, m)"
  using assms by (cases "h_GetStats h") (auto simp: updateStats_def)

text \<open>
  C2, as the claim states it, fails: \<open>GetStats\<close> returns an error for a container that
  is gone and that the cache has lost. \<open>updateStats\<close> is silent, but the same iteration
  goes on to \<open>adjustHousekeepingInterval\<close>, whose \<open>RecentStats\<close> fails, and logs the
  warning.
\<close>

theorem housekeeping_container_gone_counterexample:
  "snd (h_GetStats gone_handler) \<noteq> None \<and> \<not> h_Exists_GetStats gone_handler
   \<and> housekeepingIteration exact_arith default_flags lost_cache_ops gone_handler generic_collector
        quiet_io docker_tracker empty_cache
     = Inr (continues
         [Warning ''Failed to get RecentStats(%q) while determining the next housekeeping: %v''
            [AStr ''/docker/abc'', AErr (Error ''unable to find data for container'')]]
         (docker_tracker\<lparr>lastErrorTime := 120000000000\<rparr>) empty_cache)"
  by (simp add: housekeepingIteration_def doWithTimeout_def updateStats_def logUsageStep_def
      adjustHousekeepingInterval_def allowErrorLogging_def longHousekeeping_def
      gone_handler_def live_handler_def quiet_io_def lost_cache_ops_def docker_tracker_def
      docker_ref_def default_flags_def time_Since_def time_Sub_def Second_def Minute_def
      Millisecond_def signed_divide_int_def)

text \<open>
  C2, amended. When \<open>GetStats\<close> returns an error and the handler then reports that the
  container does not exist, \<open>updateStats\<close> returns nil and leaves the cache as it was,
  whatever the cache's \<open>AddStats\<close> would do, and \<open>doWithTimeout\<close> logs nothing for it. The
  iteration (no stop signal, the timeout not firing) goes on and the loop continues, with
  the cache as it was and no line about a failed update; it logs an error line only when
  one of its own \<open>RecentStats\<close> calls (usage logging, interval adjustment) fails.
\<close>

theorem housekeeping_container_gone:
  assumes err: "snd (h_GetStats h) \<noteq> None"
    and gone: "\<not> h_Exists_GetStats h"
    and go: "\<not> stop_signalled io" "\<not> timed_out io"
  shows "updateStats fa ops h col now c m = Inr (None, c, m)
     \<and> doWithTimeout (updateStats fa ops h col now) False now_since now_set c m = Inr ([], c, m)
     \<and> (\<exists>logs c'. housekeepingIteration fa fl ops h col io c m = Inr (continues logs c' m)
          \<and> (\<forall>l \<in> set logs. \<not> update_failure_line l)
          \<and> (\<not> isl (cache_RecentStats ops (Name (Ref (info c))) 60 m)
               \<and> \<not> isl (cache_RecentStats ops (Name (Ref (info c))) 2 m)
              \<longrightarrow> (\<forall>l \<in> set logs. \<not> error_line l)))"
proof -
  have upd: "updateStats fa ops h col t c m = Inr (None, c, m)" for t
    using err gone by (rule updateStats_gone)
  have dwt: "doWithTimeout (updateStats fa ops h col t) False t1 t2 c m = Inr ([], c, m)" for t t1 t2
    by (simp add: doWithTimeout_def upd)
  let ?duration = "time_Since (clock_end io) (clock_start io)"
  let ?log2 = "if sint (longHousekeeping fl) \<le> sint ?duration
               then [Verbose 3 ''[%s] Housekeeping took %s'' [AStr (Name (Ref (info c))), ADuration ?duration]]
               else []"
  obtain log3 c2 where usage: "logUsageStep fa ops io c m = (log3, c2)"
    by (cases "logUsageStep fa ops io c m")
  obtain e c3 where adj: "adjustHousekeepingInterval fl ops m c2 = (e, c3)"
    by (cases "adjustHousekeepingInterval fl ops m c2")
  note u = logUsageStep_lines [OF usage]
  note a = adjustHousekeepingInterval_error [OF adj]
  have l2: "\<forall>l \<in> set ?log2. \<not> update_failure_line l \<and> \<not> error_line l"
    by (simp add: update_failure_line_def error_line_def)
  show ?thesis
  proof (cases e)
    case None
    then have "housekeepingIteration fa fl ops h col io c m = Inr (continues (?log2 @ log3) c3 m)"
      using go usage adj by (simp add: housekeepingIteration_def dwt Let_def)
    moreover have "\<forall>l \<in> set (?log2 @ log3). \<not> update_failure_line l"
      using l2 u by auto
    moreover have "\<not> isl (cache_RecentStats ops (Name (Ref (info c))) 60 m)
        \<longrightarrow> (\<forall>l \<in> set (?log2 @ log3). \<not> error_line l)"
      using l2 u by auto
    ultimately show ?thesis using upd dwt by blast
  next
    case (Some e1)
    obtain allowed c4 where al: "allowErrorLogging (fst (clock_adjust_log io)) (snd (clock_adjust_log io)) c3
        = (allowed, c4)"
      by (cases "allowErrorLogging (fst (clock_adjust_log io)) (snd (clock_adjust_log io)) c3")
    let ?log4 = "if allowed
                 then [Warning ''Failed to get RecentStats(%q) while determining the next housekeeping: %v''
                         [AStr (Name (Ref (info c4))), AErr e1]]
                 else []"
    have "housekeepingIteration fa fl ops h col io c m = Inr (continues (?log2 @ log3 @ ?log4) c4 m)"
      using go usage adj Some al by (simp add: housekeepingIteration_def dwt Let_def)
    moreover have "\<forall>l \<in> set (?log2 @ log3 @ ?log4). \<not> update_failure_line l"
      using l2 u by (auto simp: update_failure_line_def)
    moreover have "isl (cache_RecentStats ops (Name (Ref (info c))) 2 m)"
      using a u Some by simp
    ultimately show ?thesis using upd dwt by blast
  qed
qed

text \<open>
  With a cache that answers \<open>RecentStats\<close>, the iteration for the container that is gone
  logs nothing at all and leaves tracker and cache as they were.
\<close>

theorem housekeeping_container_gone_witness:
  "updateStats exact_arith spec_cache_ops gone_handler generic_collector 0 docker_tracker empty_cache
     = Inr (None, docker_tracker, empty_cache)
   \<and> doWithTimeout (updateStats exact_arith spec_cache_ops gone_handler generic_collector 0) False 0 0
        docker_tracker empty_cache = Inr ([], docker_tracker, empty_cache)
   \<and> housekeepingIteration exact_arith default_flags spec_cache_ops gone_handler generic_collector
        quiet_io docker_tracker empty_cache = Inr (continues [] docker_tracker empty_cache)"
  using housekeeping_container_gone [of gone_handler quiet_io exact_arith spec_cache_ops generic_collector 0
      docker_tracker empty_cache 0 0 default_flags]
  by (simp add: housekeepingIteration_def doWithTimeout_def updateStats_def logUsageStep_def
      adjustHousekeepingInterval_def longHousekeeping_def
      gone_handler_def live_handler_def quiet_io_def spec_cache_ops_def docker_tracker_def
      docker_ref_def default_flags_def empty_cache_def time_Since_def time_Sub_def Second_def
      Millisecond_def signed_divide_int_def)

text \<open>
  C3, as the claim states it, fails: the handler returns a sample together with an error
  and reports that the container exists, but \<open>ContainerReference\<close> fails; then nothing
  reaches the cache and the error returned is the one of \<open>ContainerReference\<close>.
\<close>

theorem updateStats_partial_stats_counterexample:
  "h_GetStats no_reference_handler = (Some zero_stats, Some (Error ''network stats failed''))
   \<and> h_Exists_GetStats no_reference_handler \<and> h_Exists_ContainerReference no_reference_handler
   \<and> updateStats exact_arith spec_cache_ops no_reference_handler generic_collector 0 docker_tracker empty_cache
       = Inr (Some (Error ''no reference''), docker_tracker, empty_cache)"
  by (simp add: updateStats_def no_reference_handler_def partial_handler_def live_handler_def
      generic_collector_def)

text \<open>
  C3, amended. When \<open>GetStats\<close> returns a sample together with an error, the handler
  reports that the container exists, the collector manager is a
  \<open>*GenericCollectorManager\<close> and \<open>ContainerReference\<close> succeeds, \<open>updateStats\<close> hands the
  sample to the cache's \<open>AddStats\<close> (the handler's sample, only load average, task stats
  and custom metrics written into it) and then returns the cache's error if there is
  one, and the annotated stats error otherwise.
\<close>

theorem updateStats_partial_stats:
  assumes gs: "h_GetStats h = (Some stats, Some err)"
    and ex: "h_Exists_GetStats h"
    and gen: "manager col = GenericCollectorManager n next"
    and ref: "h_ContainerReference h = Inr ref"
  shows "\<exists>pushed.
      Timestamp pushed = Timestamp stats \<and> Usage (Cpu pushed) = Usage (Cpu stats)
    \<and> DiskIo pushed = DiskIo stats \<and> Memory pushed = Memory stats
    \<and> Network pushed = Network stats \<and> Filesystem pushed = Filesystem stats
    \<and> (\<forall>ops m. updateStats fa ops h col now c m =
          (case cache_AddStats ops ref pushed m of
             (None, m') \<Rightarrow> Inr (Some (Errorf ''%v, continuing to push stats'' [AErr err]), c, m')
           | (Some cache_err, m') \<Rightarrow> Inr (Some cache_err, c, m')))"
proof (intro exI conjI allI)
  let ?p = "sample_to_push fa h col now c stats"
  show "Timestamp ?p = Timestamp stats" "Usage (Cpu ?p) = Usage (Cpu stats)"
    "DiskIo ?p = DiskIo stats" "Memory ?p = Memory stats"
    "Network ?p = Network stats" "Filesystem ?p = Filesystem stats"
    by (simp_all add: sample_to_push_def Let_def gen split: option.splits)
  fix ops :: "'a cache_ops" and m
  show "updateStats fa ops h col now c m =
          (case cache_AddStats ops ref ?p m of
             (None, m') \<Rightarrow> Inr (Some (Errorf ''%v, continuing to push stats'' [AErr err]), c, m')
           | (Some cache_err, m') \<Rightarrow> Inr (Some cache_err, c, m'))"
    using updateStats_push [OF gs _ gen ref, of fa ops now c m] ex
    by (auto simp: Let_def split: prod.splits option.splits)
qed


theorem updateStats_partial_stats_witness:
  "updateStats exact_arith spec_cache_ops partial_handler generic_collector 0 docker_tracker empty_cache
     = Inr (Some (Errorf ''%v, continuing to push stats'' [AErr (Error ''network stats failed'')]),
            docker_tracker, empty_cache(''/docker/abc'' := [zero_stats]))"
proof -
  obtain pushed where p: "Timestamp pushed = Timestamp zero_stats"
    and run: "\<And>ops :: (string \<Rightarrow> ContainerStats list) cache_ops. \<And>m.
      updateStats exact_arith ops partial_handler generic_collector 0 docker_tracker m =
          (case cache_AddStats ops docker_ref pushed m of
             (None, m') \<Rightarrow> Inr (Some (Errorf ''%v, continuing to push stats'' [AErr (Error ''network stats failed'')]), docker_tracker, m')
           | (Some cache_err, m') \<Rightarrow> Inr (Some cache_err, docker_tracker, m'))"
    using updateStats_partial_stats [of partial_handler zero_stats "Error ''network stats failed''"
        generic_collector 0 0 docker_ref exact_arith 0 docker_tracker]
    by (auto simp: partial_handler_def live_handler_def generic_collector_def)
  have "updateStats exact_arith spec_cache_ops partial_handler generic_collector 0 docker_tracker empty_cache
     = Inr (Some (Errorf ''%v, continuing to push stats'' [AErr (Error ''network stats failed'')]),
            docker_tracker, empty_cache(''/docker/abc'' := [pushed]))"
    by (simp add: run spec_cache_ops_def docker_ref_def empty_cache_def)
  moreover have "updateStats exact_arith spec_cache_ops partial_handler generic_collector 0 docker_tracker empty_cache
     = Inr (Some (Errorf ''%v, continuing to push stats'' [AErr (Error ''network stats failed'')]),
            docker_tracker, empty_cache(''/docker/abc'' := [zero_stats]))"
    by (simp add: updateStats_def partial_handler_def live_handler_def generic_collector_def
        spec_cache_ops_def docker_ref_def docker_tracker_def LoadAvg_def get_TaskStats_def
        zero_stats_def empty_cache_def)
  ultimately show ?thesis by simp
qed

lemma int32_of_float64_in_range:
  assumes "- (2 ^ 31) \<le> trunc_toward_zero x" "trunc_toward_zero x < 2 ^ 31"
  shows "int32_of_float64 x = word_of_int (trunc_toward_zero x)"
  using assms by (simp add: int32_of_float64_def)

text \<open>
  C6, as the claim states it, fails: with a smoothed load of \<open>1/1024\<close> the product
  \<open>load * 1000\<close> is \<open>0.9765625\<close> (exact in \<open>float64\<close>), which rounds to 1, and the pushed
  sample carries the load average 0.
\<close>

theorem updateStats_load_average_counterexample:
  "LoadAvg (docker_tracker\<lparr>loadAvg := 1 / 1024\<rparr>) = 1 / 1024
   \<and> f64_mul exact_arith (1 / 1024) 1000 = 125 / 128
   \<and> round (125 / 128 :: real) = 1
   \<and> updateStats exact_arith spec_cache_ops live_handler generic_collector 0
        (docker_tracker\<lparr>loadAvg := 1 / 1024\<rparr>) empty_cache
       = Inr (None, docker_tracker\<lparr>loadAvg := 1 / 1024\<rparr>,
              empty_cache(''/docker/abc'' := [zero_stats]))
   \<and> LoadAverage (Cpu zero_stats) = 0"
  by (simp add: updateStats_def live_handler_def generic_collector_def exact_arith_def
        spec_cache_ops_def docker_ref_def docker_tracker_def LoadAvg_def get_TaskStats_def
        zero_stats_def empty_cache_def int32_of_float64_def trunc_toward_zero_def round_def)

text \<open>
  C6, amended. In an iteration that reaches the cache (the handler returns a sample,
  without an error or for a container that exists, the collector manager is a
  \<open>*GenericCollectorManager\<close> and \<open>ContainerReference\<close> succeeds), when the smoothed load
  is at least 0 the pushed sample's load average is the \<open>float64\<close> product \<open>load * 1000\<close>
  with its fraction dropped (truncated towards zero, for a product that fits \<open>int32\<close>);
  when the load is negative the field is as the handler returned it.
\<close>

theorem updateStats_load_average:
  assumes gs: "h_GetStats h = (Some stats, e)"
    and ex: "e = None \<or> h_Exists_GetStats h"
    and gen: "manager col = GenericCollectorManager n next"
    and ref: "h_ContainerReference h = Inr ref"
    and range: "0 \<le> LoadAvg c \<longrightarrow>
       - (2 ^ 31) \<le> trunc_toward_zero (f64_mul fa (LoadAvg c) 1000)
       \<and> trunc_toward_zero (f64_mul fa (LoadAvg c) 1000) < 2 ^ 31"
  shows "\<exists>pushed.
      (\<forall>(ops :: 'c cache_ops) m. \<exists>r. updateStats fa ops h col now c m = Inr (r, c, snd (cache_AddStats ops ref pushed m)))
    \<and> LoadAverage (Cpu pushed) =
        (if 0 \<le> LoadAvg c then word_of_int (trunc_toward_zero (f64_mul fa (LoadAvg c) 1000))
         else LoadAverage (Cpu stats))"
proof -
  let ?p = "sample_to_push fa h col now c stats"
  have load: "LoadAverage (Cpu ?p) =
        (if 0 \<le> LoadAvg c then word_of_int (trunc_toward_zero (f64_mul fa (LoadAvg c) 1000))
         else LoadAverage (Cpu stats))"
    using range
    by (simp add: sample_to_push_def Let_def gen int32_of_float64_in_range split: option.splits)
  have "\<exists>r. updateStats fa ops h col now c m = Inr (r, c, snd (cache_AddStats ops ref ?p m))"
    for ops :: "'c cache_ops" and m
    using updateStats_push [OF gs ex gen ref, of fa ops now c m]
    by (auto simp: Let_def split: prod.splits)
  with load show ?thesis by blast
qed

text \<open>A smoothed load of \<open>1.75\<close>: the product is 1750, exact in \<open>float64\<close>.\<close>

theorem updateStats_load_average_witness:
  "updateStats exact_arith spec_cache_ops live_handler generic_collector 0
        (docker_tracker\<lparr>loadAvg := 7 / 4\<rparr>) empty_cache
       = Inr (None, docker_tracker\<lparr>loadAvg := 7 / 4\<rparr>,
              empty_cache(''/docker/abc'' := [zero_stats\<lparr>Cpu := (Cpu zero_stats)\<lparr>LoadAverage := 1750\<rparr>\<rparr>]))"
  using updateStats_load_average [of live_handler zero_stats None generic_collector 0 0 docker_ref
      "docker_tracker\<lparr>loadAvg := 7 / 4\<rparr>" exact_arith 0]
  by (simp add: updateStats_def live_handler_def generic_collector_def exact_arith_def
        spec_cache_ops_def docker_ref_def docker_tracker_def LoadAvg_def get_TaskStats_def
        zero_stats_def empty_cache_def int32_of_float64_def trunc_toward_zero_def)

subsection \<open>The load average\<close>

lemma newContainerData_loadAvg:
  assumes "newContainerData fl containerName mc_nil hp lu col maxhi dyn cpu summ = Inr (Inr c, logs)"
  shows "loadAvg c = - 1"
  using assms
  by (auto simp: newContainerData_def updateSpec_def Let_def
      split: if_splits option.splits sum.splits prod.splits)

lemma float64_of_uint64_nonneg: "0 \<le> float64_of_uint64 w"
  unfolding float64_of_uint64_def Let_def by (auto simp only: of_nat_0_le_iff split: if_splits)

lemma float64_of_uint64_small:
  assumes "unat a + unat b + unat d < 2 ^ 53"
  shows "float64_of_uint64 (a + b + d) = real (unat a + unat b + unat d)"
proof -
  have "unat a + unat b + unat d < 2 ^ 64"
    using assms by (rule less_trans) simp
  then have "unat (a + b + d) = unat a + unat b + unat d"
    by (simp add: unat_word_ariths)
  then show ?thesis using assms by (simp add: float64_of_uint64_def)
qed

lemma sint_time_Sub_nonneg:
  assumes "u \<le> t"
  shows "0 \<le> sint (time_Sub t u)"
proof (cases "t - u > 2 ^ 63 - 1")
  case True
  then show ?thesis by (simp add: time_Sub_def)
next
  case False
  then have "sint (word_of_int (t - u) :: 64 word) = t - u"
    using assms by (simp add: sint_sbintrunc' signed_take_bit_int_eq_self del: of_int_diff)
  moreover have "\<not> t - u < - (2 ^ 63)" using assms by simp
  ultimately show ?thesis using assms False by (simp add: time_Sub_def Let_def)
qed


lemma Seconds_nonneg:
  assumes "keeps_sign fa" "0 \<le> sint d"
  shows "0 \<le> Seconds fa d"
proof -
  let ?sec = "sint d sdiv sint Second" and ?nsec = "sint d smod sint Second"
  have "0 \<le> ?sec" "0 \<le> ?nsec"
    using assms(2)
    by (simp_all add: signed_divide_int_def signed_modulo_int_def Second_def sgn_if)
  then have "0 \<le> real_of_int ?sec" "0 \<le> real_of_int ?nsec" by simp_all
  moreover have "0 \<le> f64_div fa (real_of_int ?nsec) 1000000000"
    using assms(1) \<open>0 \<le> real_of_int ?nsec\<close> by (simp add: keeps_sign_def)
  ultimately have "0 \<le> f64_add fa (real_of_int ?sec) (f64_div fa (real_of_int ?nsec) 1000000000)"
    using assms(1) by (simp add: keeps_sign_def)
  then show ?thesis by (simp add: Seconds_def Let_def)
qed

lemma updateLoadAvg_first:
  assumes "loadAvg c < 0"
  shows "loadAvg (updateLoadAvg fa t s c) = float64_of_uint64 (NrRunning s + NrUninterruptible s + NrIoWait s)"
  using assms by (simp add: updateLoadAvg_def Let_def)

lemma updateLoadAvg_time: "loadAvgLastProbeTime (updateLoadAvg fa t s c) = t"
  by (simp add: updateLoadAvg_def Let_def)

lemma updateLoadAvg_later:
  assumes "\<not> loadAvg c < 0"
  shows "loadAvg (updateLoadAvg fa t s c) =
     (let loadDecay = math_Exp fa (- (f64_div fa (Seconds fa (time_Sub t (loadAvgLastProbeTime c))) 10))
      in f64_add fa
           (f64_mul fa (float64_of_uint64 (NrRunning s + NrUninterruptible s + NrIoWait s))
              (f64_sub fa 1 loadDecay))
           (f64_mul fa (loadAvg c) loadDecay))"
  using assms by (simp add: updateLoadAvg_def Let_def)

lemma updateLoadAvg_nonneg:
  assumes signs: "keeps_sign fa"
    and "loadAvg c < 0 \<or> loadAvgLastProbeTime c \<le> t"
  shows "0 \<le> loadAvg (updateLoadAvg fa t s c)"
proof (cases "loadAvg c < 0")
  case True
  then show ?thesis by (simp add: updateLoadAvg_first float64_of_uint64_nonneg)
next
  case False
  let ?secs = "Seconds fa (time_Sub t (loadAvgLastProbeTime c))"
  let ?d = "math_Exp fa (- (f64_div fa ?secs 10))"
  let ?raw = "float64_of_uint64 (NrRunning s + NrUninterruptible s + NrIoWait s)"
  have "0 \<le> sint (time_Sub t (loadAvgLastProbeTime c))"
    using assms False by (intro sint_time_Sub_nonneg) auto
  then have "0 \<le> ?secs" using signs by (rule Seconds_nonneg [rotated])
  then have "0 \<le> f64_div fa ?secs 10"
    using signs by (simp add: keeps_sign_def)
  then have "- (f64_div fa ?secs 10) \<le> 0" by simp
  then have d: "0 \<le> ?d" "?d \<le> 1"
    using signs by (simp_all add: keeps_sign_def)
  then have "0 \<le> f64_sub fa 1 ?d"
    using signs by (simp add: keeps_sign_def)
  then have "0 \<le> f64_mul fa ?raw (f64_sub fa 1 ?d)"
    using signs float64_of_uint64_nonneg [of "NrRunning s + NrUninterruptible s + NrIoWait s"]
    by (simp add: keeps_sign_def)
  moreover have "0 \<le> f64_mul fa (loadAvg c) ?d"
    using signs False d by (simp add: keeps_sign_def)
  ultimately have "0 \<le> f64_add fa (f64_mul fa ?raw (f64_sub fa 1 ?d)) (f64_mul fa (loadAvg c) ?d)"
    using signs by (simp add: keeps_sign_def)
  then show ?thesis using False by (simp add: updateLoadAvg_later Let_def)
qed

lemma observations_nonneg:
  assumes "keeps_sign fa" "0 \<le> loadAvg c" "sorted (loadAvgLastProbeTime c # map fst obs)"
  shows "0 \<le> loadAvg (observations fa obs c)"
  using assms
proof (induction obs arbitrary: c)
  case Nil
  then show ?case by simp
next
  case (Cons o1 obs)
  obtain t s where o1: "o1 = (t, s)" by (cases o1)
  have "0 \<le> loadAvg (updateLoadAvg fa t s c)"
    using Cons.prems o1 by (intro updateLoadAvg_nonneg) simp_all
  moreover have "sorted (loadAvgLastProbeTime (updateLoadAvg fa t s c) # map fst obs)"
    using Cons.prems o1 by (simp add: updateLoadAvg_time)
  ultimately show ?case using Cons.IH Cons.prems(1) o1 by simp
qed

lemma doLoadReaderIteration_loadAvg:
  assumes "doLoadReaderIteration fa fl h r t c = Inr (e, c')"
  shows "loadAvg c' =
     (case (h_GetCgroupPath h, r) of
        (Inr path, Inr s) \<Rightarrow> loadAvg (updateLoadAvg fa t s c)
      | _ \<Rightarrow> loadAvg c)"
  using assms
  by (auto simp: doLoadReaderIteration_def updateTaskStats_def updateLoadAvg_def Let_def
      split: sum.splits if_splits)

lemma exact_arith_keeps_sign: "keeps_sign exact_arith"
  by (simp add: keeps_sign_def exact_arith_def)

text \<open>
  C4. For a tracker as \<open>newContainerData\<close> returns it: \<open>LoadAvg\<close> is exactly \<open>-1\<close>; after
  the first \<open>updateLoadAvg (probeTime, sample)\<close> it is the sum of the sample's three counts
  (for counts that sum to less than \<open>2^53\<close>, which \<open>float64\<close> holds exactly); and after
  any observations at non-decreasing probe times \<open>LoadAvg\<close> is at least 0 iff there was
  at least one observation, whatever the rounding of the \<open>float64\<close> operations as long as
  it keeps the signs. An iteration of the load reader that is skipped or fails makes no
  observation and leaves \<open>-1\<close>; one that completes leaves a value of at least 0.
\<close>

theorem load_average_sentinel:
  assumes fresh: "newContainerData fl containerName mc_nil hp lu col maxhi dyn cpu summ = Inr (Inr c, logs)"
    and times: "sorted (map fst obs)"
    and signs: "keeps_sign fa"
  shows "LoadAvg c = - 1
    \<and> (\<forall>t s. unat (NrRunning s) + unat (NrUninterruptible s) + unat (NrIoWait s) < 2 ^ 53 \<longrightarrow>
          LoadAvg (updateLoadAvg fa t s c) =
            real (unat (NrRunning s) + unat (NrUninterruptible s) + unat (NrIoWait s)))
    \<and> (0 \<le> LoadAvg (observations fa obs c) \<longleftrightarrow> obs \<noteq> [])
    \<and> (obs = [] \<longrightarrow> LoadAvg (observations fa obs c) = - 1)
    \<and> (\<forall>h r t e c'. doLoadReaderIteration fa fl h r t c = Inr (e, c') \<longrightarrow>
          (if (\<exists>path s. h_GetCgroupPath h = Inr path \<and> r = Inr s)
           then 0 \<le> LoadAvg c' else LoadAvg c' = - 1))"
proof -
  have init: "loadAvg c = - 1" using fresh by (rule newContainerData_loadAvg)
  have first: "LoadAvg (updateLoadAvg fa t s c) =
            real (unat (NrRunning s) + unat (NrUninterruptible s) + unat (NrIoWait s))"
    if "unat (NrRunning s) + unat (NrUninterruptible s) + unat (NrIoWait s) < 2 ^ 53" for t s
    using that init by (simp add: LoadAvg_def updateLoadAvg_first float64_of_uint64_small)
  have later: "0 \<le> LoadAvg (observations fa obs c)" if ne: "obs \<noteq> []"
  proof -
    obtain o1 rest where "obs = o1 # rest" using ne by (cases obs) auto
    then obtain t s where obs: "obs = (t, s) # rest" by (cases o1) auto
    have "0 \<le> loadAvg (updateLoadAvg fa t s c)"
      using init signs by (intro updateLoadAvg_nonneg) simp_all
    moreover have "sorted (loadAvgLastProbeTime (updateLoadAvg fa t s c) # map fst rest)"
      using times obs by (simp add: updateLoadAvg_time)
    ultimately show ?thesis
      using observations_nonneg [OF signs, of "updateLoadAvg fa t s c" rest] obs
      by (simp add: LoadAvg_def)
  qed
  have iter: "if (\<exists>path s. h_GetCgroupPath h = Inr path \<and> r = Inr s)
           then 0 \<le> LoadAvg c' else LoadAvg c' = - 1"
    if run: "doLoadReaderIteration fa fl h r t c = Inr (e, c')" for h r t e c'
  proof (cases "\<exists>path s. h_GetCgroupPath h = Inr path \<and> r = Inr s")
    case True
    then obtain path s where "h_GetCgroupPath h = Inr path" "r = Inr s" by blast
    then have "loadAvg c' = loadAvg (updateLoadAvg fa t s c)"
      using doLoadReaderIteration_loadAvg [OF run] by simp
    moreover have "0 \<le> loadAvg (updateLoadAvg fa t s c)"
      using init signs by (intro updateLoadAvg_nonneg) simp_all
    ultimately show ?thesis using True by (simp add: LoadAvg_def)
  next
    case False
    then have "loadAvg c' = loadAvg c"
      using doLoadReaderIteration_loadAvg [OF run] by (auto split: sum.splits)
    then show ?thesis using False init by (simp add: LoadAvg_def)
  qed
  have a: "LoadAvg c = - 1" using init by (simp add: LoadAvg_def)
  have b: "\<forall>t s. unat (NrRunning s) + unat (NrUninterruptible s) + unat (NrIoWait s) < 2 ^ 53 \<longrightarrow>
          LoadAvg (updateLoadAvg fa t s c) =
            real (unat (NrRunning s) + unat (NrUninterruptible s) + unat (NrIoWait s))"
    using first by blast
  have d: "obs = [] \<longrightarrow> LoadAvg (observations fa obs c) = - 1"
    using a by simp
  have e: "0 \<le> LoadAvg (observations fa obs c) \<longleftrightarrow> obs \<noteq> []"
    using later d by (cases "obs = []") auto
  have f: "\<forall>h r t e c'. doLoadReaderIteration fa fl h r t c = Inr (e, c') \<longrightarrow>
          (if (\<exists>path s. h_GetCgroupPath h = Inr path \<and> r = Inr s)
           then 0 \<le> LoadAvg c' else LoadAvg c' = - 1)"
    using iter by blast
  show ?thesis using a b d e f by (intro conjI)
qed

text \<open>
  The tracker built for the live container reads \<open>-1\<close>; a first sample of three
  running tasks makes it 3; after a second sample ten seconds later it is at least 0
  (here in the arithmetic that does not round, and by the theorem in any that keeps the
  signs).
\<close>

theorem load_average_sentinel_witness:
  "newContainerData default_flags ''/docker/abc'' False (Some live_handler) False generic_collector
       (8 * Second) True None None = Inr (Inr fresh_tracker, [])
   \<and> LoadAvg fresh_tracker = - 1
   \<and> LoadAvg (updateLoadAvg exact_arith 0 three_running fresh_tracker) = 3
   \<and> 0 \<le> LoadAvg (observations exact_arith [(0, three_running), (10000000000, five_running)] fresh_tracker)"
proof -
  have built: "newContainerData default_flags ''/docker/abc'' False (Some live_handler) False
       generic_collector (8 * Second) True None None = Inr (Inr fresh_tracker, [])"
    by (simp add: newContainerData_def updateSpec_def live_handler_def generic_collector_def
        default_flags_def fresh_tracker_def zero_containerInfo_def Let_def)
  have three: "unat (NrRunning three_running) + unat (NrUninterruptible three_running)
      + unat (NrIoWait three_running) < 2 ^ 53"
    by (simp add: three_running_def)
  show ?thesis
    using load_average_sentinel [OF built _ exact_arith_keeps_sign,
        of "[(0, three_running), (10000000000, five_running)]"] three
    by (simp add: built three_running_def)
qed



subsection \<open>GetInfo\<close>

lemma GetInfo_pointer:
  assumes "GetInfo sortRefs h col now_since now_set a s = Inr (Inr p, s')"
  shows "p = info_of a"
  using assms
  by (auto simp: GetInfo_def split: option.splits if_splits sum.splits prod.splits)

lemma write_ptr_reaches_tracker:
  assumes "s a = Some c"
  shows "map_option info (write_ptr (info_of a) v s a) = Some v"
  using assms by (simp add: write_ptr_def)

text \<open>
  C7. The claim says that what \<open>GetInfo\<close> returns is a copy, so that changing it never
  changes the tracker. \<open>GetInfo\<close> returns \<open>&c.info\<close>: for the tracker at address 0, one
  nanosecond after its last refresh, it returns the pointer to that tracker's own
  \<open>info\<close>, and an assignment through the pointer replaces the tracker's \<open>info\<close> (here its
  name is lost).
\<close>

theorem GetInfo_returns_alias:
  "GetInfo id live_handler generic_collector 1 1 0 tracker_store = Inr (Inr (info_of 0), tracker_store)
   \<and> map_option info (tracker_store 0) = Some (info fresh_tracker)
   \<and> map_option info (write_ptr (info_of 0) zero_containerInfo tracker_store 0) = Some zero_containerInfo
   \<and> Name (Ref (info fresh_tracker)) = ''/docker/abc''
   \<and> Name (Ref zero_containerInfo) = []"
  by (simp add: GetInfo_def tracker_store_def write_ptr_def time_Since_def time_Sub_def Second_def
      fresh_tracker_def docker_ref_def zero_containerInfo_def)

subsection \<open>The process list\<close>

lemma processLine_well_formed:
  assumes "well_formed_row lib line"
  shows "processLine lib c cadvisorContainer inHostNamespace line =
     (if reported_row lib c cadvisorContainer inHostNamespace line
      then line_appended (row_entry lib c line) else line_skipped)"
proof -
  let ?f = "strings_Fields lib line"
  from assms have len: "\<not> length ?f < 12"
    by (simp add: well_formed_row_def Let_def)
  from assms obtain pid ppid pcpu pmem rss vs where p:
    "strconv_Atoi lib (?f ! 1) = Inr pid" "strconv_Atoi lib (?f ! 2) = Inr ppid"
    "strconv_ParseFloat lib (?f ! 4) 32 = Inr pcpu" "strconv_ParseFloat lib (?f ! 5) 32 = Inr pmem"
    "strconv_ParseUint lib (?f ! 6) 0 64 = Inr rss" "strconv_ParseUint lib (?f ! 7) 0 64 = Inr vs"
    unfolding well_formed_row_def Let_def
    by (metis sum.collapse(2))
  have "snd (getCgroupPath lib (?f ! 11)) = None"
    by (simp add: getCgroupPath_def Let_def)
  then obtain cg where cg: "getCgroupPath lib (?f ! 11) = (cg, None)"
    by (cases "getCgroupPath lib (?f ! 11)") auto
  show ?thesis
    using len p cg
    by (auto simp: processLine_def reported_row_def own_ps_row_def row_cgroup_def row_entry_def Let_def)
qed

lemma processLines_well_formed:
  assumes "\<forall>line \<in> set lines. line \<noteq> [] \<longrightarrow> well_formed_row lib line"
  shows "processLines lib c cadvisorContainer inHostNamespace lines processes =
     Inr (processes @ map (row_entry lib c)
        (filter (reported_row lib c cadvisorContainer inHostNamespace)
           (filter (\<lambda>line. line \<noteq> []) lines)))"
  using assms
proof (induction lines arbitrary: processes)
  case Nil
  then show ?case by simp
next
  case (Cons line rest)
  show ?case
  proof (cases "line = []")
    case True
    then show ?thesis using Cons by simp
  next
    case False
    then have "well_formed_row lib line" using Cons.prems by simp
    then show ?thesis
      using False Cons by (simp add: processLine_well_formed)
  qed
qed

text \<open>
  C8. When \<open>ps\<close> runs and every non-empty line after the header is well formed (at
  least 12 fields, and pid, ppid, the two percentages, RSS and VSZ parse), \<open>GetProcessList\<close>
  returns, in order, exactly the entries of the body rows that are reported: the rows
  whose parsed cgroup equals the tracker's name, or every row when the name is \<open>/\<close>,
  without the rows of \<open>ps\<close> in the agent's own cgroup when not in the host namespace.
  Each entry carries the row's RSS and VSZ times 1024, and the parsed cgroup as
  \<open>CgroupPath\<close> for the root tracker only (empty otherwise).
\<close>

theorem GetProcessList_rows:
  assumes out: "getPsOutput lib inHostNamespace ps_format = Inr out"
    and wf: "\<forall>line \<in> set (body_rows out). well_formed_row lib line"
  shows "GetProcessList lib c cadvisorContainer inHostNamespace =
     Inr (map (row_entry lib c)
            (filter (reported_row lib c cadvisorContainer inHostNamespace) (body_rows out)))"
proof -
  have "\<forall>line \<in> set (drop 1 (Split_lines out)). line \<noteq> [] \<longrightarrow> well_formed_row lib line"
    using wf by (simp add: body_rows_def)
  then show ?thesis
    using out by (simp add: GetProcessList_def processLines_well_formed body_rows_def)
qed


text \<open>
  Three rows from three cgroups: the root tracker in the host namespace reports all
  three with their cgroup paths (RSS 1024 becomes 1048576); outside the host namespace,
  with the agent in \<open>/docker/cadvisor\<close>, it leaves the \<open>ps\<close> row out; the tracker of
  \<open>/docker/abc\<close> reports its one row with an empty cgroup path.
\<close>

lemma example_rows: "body_rows ps_output =
  [''root 1 0 10:00 0.0 0.5 1024 2048 Ss 00:00:01 init 4:devices:/,3:cpu:/'',
   ''root 42 1 10:01 1.5 0.5 2048 4096 S 00:00:02 nginx 4:devices:/docker/abc,3:cpu:/docker/abc'',
   ''app 77 1 10:02 0.0 0.0 512 1024 R 00:00:00 ps 4:devices:/docker/cadvisor,3:cpu:/docker/cadvisor'']"
  by (simp add: body_rows_def ps_output_def)

lemma example_fields:
  "strings_Fields example_lib ''root 1 0 10:00 0.0 0.5 1024 2048 Ss 00:00:01 init 4:devices:/,3:cpu:/''
     = [''root'', ''1'', ''0'', ''10:00'', ''0.0'', ''0.5'', ''1024'', ''2048'', ''Ss'', ''00:00:01'',
        ''init'', ''4:devices:/,3:cpu:/'']"
  "strings_Fields example_lib ''root 42 1 10:01 1.5 0.5 2048 4096 S 00:00:02 nginx 4:devices:/docker/abc,3:cpu:/docker/abc''
     = [''root'', ''42'', ''1'', ''10:01'', ''1.5'', ''0.5'', ''2048'', ''4096'', ''S'', ''00:00:02'',
        ''nginx'', ''4:devices:/docker/abc,3:cpu:/docker/abc'']"
  "strings_Fields example_lib ''app 77 1 10:02 0.0 0.0 512 1024 R 00:00:00 ps 4:devices:/docker/cadvisor,3:cpu:/docker/cadvisor''
     = [''app'', ''77'', ''1'', ''10:02'', ''0.0'', ''0.0'', ''512'', ''1024'', ''R'', ''00:00:00'',
        ''ps'', ''4:devices:/docker/cadvisor,3:cpu:/docker/cadvisor'']"
  by (simp_all add: example_lib_def is_space_def)

lemma example_parsers:
  "strconv_Atoi example_lib = decimal_Atoi"
  "strconv_ParseFloat example_lib = decimal_ParseFloat"
  "strconv_ParseUint example_lib = decimal_ParseUint"
  "regexp_FindSubmatch example_lib cgroupPathRegExp = find_devices"
  by (simp_all add: example_lib_def)

lemma example_numbers:
  "decimal_Atoi ''0'' = Inr 0" "decimal_Atoi ''1'' = Inr 1" "decimal_Atoi ''42'' = Inr 42"
  "decimal_Atoi ''77'' = Inr 77"
  "decimal_ParseFloat ''0.0'' 32 = Inr 0" "decimal_ParseFloat ''0.5'' 32 = Inr (1 / 2)"
  "decimal_ParseFloat ''1.5'' 32 = Inr (3 / 2)"
  "decimal_ParseUint ''512'' 0 64 = Inr 512" "decimal_ParseUint ''1024'' 0 64 = Inr 1024"
  "decimal_ParseUint ''2048'' 0 64 = Inr 2048" "decimal_ParseUint ''4096'' 0 64 = Inr 4096"
  by (simp_all add: decimal_Atoi_def decimal_ParseFloat_def decimal_ParseUint_def
      parse_decimal_def digit_of_def)

lemma example_cgroups:
  "find_devices ''4:devices:/,3:cpu:/'' = [''devices:/,'', ''/'']"
  "find_devices ''4:devices:/docker/abc,3:cpu:/docker/abc'' = [''devices:/docker/abc,'', ''/docker/abc'']"
  "find_devices ''4:devices:/docker/cadvisor,3:cpu:/docker/cadvisor''
     = [''devices:/docker/cadvisor,'', ''/docker/cadvisor'']"
  by (simp_all add: Let_def)

lemma example_well_formed:
  "\<forall>line \<in> set (body_rows ps_output). well_formed_row example_lib line"
  by (simp add: example_rows well_formed_row_def example_fields example_parsers example_numbers)

lemma example_output: "getPsOutput example_lib inHostNamespace ps_format = Inr ps_output"
  by (simp add: getPsOutput_def example_lib_def)

theorem GetProcessList_rows_witness:
  "GetProcessList example_lib root_tracker ''/docker/cadvisor'' True =
     Inr [\<lparr>Proc_User = ''root'', Pid = 1, Ppid = 0, StartTime = ''10:00'', PercentCpu = 0,
            PercentMemory = 1 / 2, Proc_RSS = 1048576, VirtualSize = 2097152, Status = ''Ss'',
            RunningTime = ''00:00:01'', Cmd = ''init'', CgroupPath = ''/''\<rparr>,
          \<lparr>Proc_User = ''root'', Pid = 42, Ppid = 1, StartTime = ''10:01'', PercentCpu = 3 / 2,
            PercentMemory = 1 / 2, Proc_RSS = 2097152, VirtualSize = 4194304, Status = ''S'',
            RunningTime = ''00:00:02'', Cmd = ''nginx'', CgroupPath = ''/docker/abc''\<rparr>,
          \<lparr>Proc_User = ''app'', Pid = 77, Ppid = 1, StartTime = ''10:02'', PercentCpu = 0,
            PercentMemory = 0, Proc_RSS = 524288, VirtualSize = 1048576, Status = ''R'',
            RunningTime = ''00:00:00'', Cmd = ''ps'', CgroupPath = ''/docker/cadvisor''\<rparr>]
   \<and> map Cmd (projr (GetProcessList example_lib root_tracker ''/docker/cadvisor'' False))
       = [''init'', ''nginx'']
   \<and> GetProcessList example_lib fresh_tracker ''/docker/cadvisor'' False =
     Inr [\<lparr>Proc_User = ''root'', Pid = 42, Ppid = 1, StartTime = ''10:01'', PercentCpu = 3 / 2,
            PercentMemory = 1 / 2, Proc_RSS = 2097152, VirtualSize = 4194304, Status = ''S'',
            RunningTime = ''00:00:02'', Cmd = ''nginx'', CgroupPath = []\<rparr>]"
  using GetProcessList_rows [OF example_output [of True] example_well_formed, of root_tracker "''/docker/cadvisor''"]
    GetProcessList_rows [OF example_output [of False] example_well_formed, of root_tracker "''/docker/cadvisor''"]
    GetProcessList_rows [OF example_output [of False] example_well_formed, of fresh_tracker "''/docker/cadvisor''"]
  by (simp add: example_rows row_entry_def reported_row_def own_ps_row_def row_cgroup_def
      getCgroupPath_def example_fields example_parsers example_numbers example_cgroups
      root_tracker_def fresh_tracker_def docker_ref_def)

end
